theory Spec2Isabelle
  imports Main "HOL-Library.Multiset" "HOL-Library.Word"
begin

section \<open>Tile keys, grids and the collaborators of ElevationLayer.cpp\<close>

text \<open>
  The development embeds \<^verbatim>\<open>src/osgEarth/ElevationLayer.cpp\<close>: the single-source
  resolver (\<^verbatim>\<open>createHeightField\<close>, \<^verbatim>\<open>createHeightFieldInKeyProfile\<close>), the
  cross-projection assembler (\<^verbatim>\<open>assembleHeightField\<close>), the multi-source compositor
  (\<^verbatim>\<open>populateHeightFieldAndNormalMap\<close>) and normal synthesis (\<^verbatim>\<open>createNormalMap\<close>).

  Elevation samples are C floats in the source. The model keeps their type \<open>'e\<close>
  abstract: the no-data sentinel \<^verbatim>\<open>NO_DATA_VALUE\<close> is a value \<open>nd\<close> handed to every
  function that tests for it, and addition is the \<open>+\<close> of \<open>'e\<close>. World coordinates
  (doubles computed from the tile extent) have the abstract type \<open>'p\<close>, normals the
  abstract type \<open>'n\<close>.
\<close>

record Profile =
  horizSignature :: nat
  vertDatum :: nat

text \<open>
  Modelled from the spec: TileKey is declared outside \<^verbatim>\<open>src/\<close>. The spec gives it as
  \<^verbatim>\<open>{lod, x, y, scheme}\<close>, an immutable value compared by its fields, that "supports
  deriving a parent key (coarser LOD, same area)". A value of this record is a valid
  key; \<^verbatim>\<open>TileKey::INVALID\<close> is \<open>None\<close> of \<open>TileKey option\<close>.
\<close>

record TileKey =
  getLOD :: nat
  getTileX :: nat
  getTileY :: nat
  getProfile :: Profile

definition createParentKey :: "TileKey \<Rightarrow> TileKey option" where
  "createParentKey k =
     (if getLOD k = 0 then None
      else Some (k\<lparr>getLOD := getLOD k - 1, getTileX := getTileX k div 2,
                    getTileY := getTileY k div 2\<rparr>))"

definition key_str :: "TileKey \<Rightarrow> nat \<times> nat \<times> nat" where
  "key_str k = (getLOD k, getTileX k, getTileY k)"

record 'e HeightField =
  getNumColumns :: nat
  getNumRows :: nat
  getHeightList :: "'e list"

definition getHeight :: "'e HeightField \<Rightarrow> nat \<Rightarrow> nat \<Rightarrow> 'e" where
  "getHeight hf c r = getHeightList hf ! (c + r * getNumColumns hf)"

definition setHeight :: "nat \<Rightarrow> nat \<Rightarrow> 'e \<Rightarrow> 'e HeightField \<Rightarrow> 'e HeightField" where
  "setHeight c r v hf =
     hf\<lparr>getHeightList := (getHeightList hf)[c + r * getNumColumns hf := v]\<rparr>"

definition allocate :: "nat \<Rightarrow> nat \<Rightarrow> 'e \<Rightarrow> 'e HeightField" where
  "allocate w h z = \<lparr>getNumColumns = w, getNumRows = h, getHeightList = replicate (w * h) z\<rparr>"

record 'n NormalMap =
  nmWidth :: nat
  nmHeight :: nat
  nmAt :: "nat \<times> nat \<Rightarrow> 'n option"

definition newNormalMap :: "nat \<Rightarrow> nat \<Rightarrow> 'n NormalMap" where
  "newNormalMap w h = \<lparr>nmWidth = w, nmHeight = h, nmAt = (\<lambda>_. None)\<rparr>"

definition nmSet :: "nat \<Rightarrow> nat \<Rightarrow> 'n \<Rightarrow> 'n NormalMap \<Rightarrow> 'n NormalMap" where
  "nmSet c r n nm = nm\<lparr>nmAt := (nmAt nm)((c, r) \<mapsto> n)\<rparr>"

text \<open>
  A GeoHeightField pairs a grid with the extent of the key it was made for; it is valid
  when both are there.
\<close>

record 'e GeoHeightField =
  getHeightField :: "'e HeightField option"
  getExtentKey :: "TileKey option"

definition INVALID :: "'e GeoHeightField" where
  "INVALID = \<lparr>getHeightField = None, getExtentKey = None\<rparr>"

definition valid :: "'e GeoHeightField \<Rightarrow> bool" where
  "valid g = (getHeightField g \<noteq> None \<and> getExtentKey g \<noteq> None)"

definition GeoHF :: "'e HeightField option \<Rightarrow> TileKey \<Rightarrow> 'e GeoHeightField" where
  "GeoHF hf key = \<lparr>getHeightField = hf, getExtentKey = Some key\<rparr>"

text \<open>
  The progress token is polled at fixed places of the code; the token is the answer it
  gives at each of them. A null token never cancels.
\<close>

datatype checkpoint =
    AssembleDone
  | BeforeCacheWrite
  | BeforeMemCacheWrite
  | ColumnStart nat
  | BeforeNormalMap
  | BeforeReturn

type_synonym ProgressCallback = "checkpoint \<Rightarrow> bool"

definition isCanceled :: "ProgressCallback option \<Rightarrow> checkpoint \<Rightarrow> bool" where
  "isCanceled progress cp = (case progress of None \<Rightarrow> False | Some p \<Rightarrow> p cp)"

record CachePolicy =
  isCacheReadable :: bool
  isCacheWriteable :: bool
  isCacheOnly :: bool
  isExpired :: "nat \<Rightarrow> bool"

record 'e CacheEntry =
  cachedObject :: "'e HeightField option"
  lastModifiedTime :: nat

text \<open>Calls the resolver makes on the cache tiers and the source, in order.\<close>

datatype cacheCall =
    MemCacheRead
  | CacheBinRead
  | SourceCreate TileKey
  | CacheBinWrite
  | MemCacheWrite

type_synonym memCacheKey = "int \<times> (nat \<times> nat \<times> nat) \<times> nat"
type_synonym cacheKey = "(nat \<times> nat \<times> nat) \<times> nat"

record 'e ElevationLayer =
  statusIsError :: bool
  getEnabled :: bool
  getVisible :: bool
  isOffset :: bool
  getTileSize :: nat
  getMinLevel :: nat
  getRevision :: int
  layerProfile :: "Profile option"
  memCache :: "(memCacheKey \<Rightarrow> 'e HeightField option) option"
  cacheBin :: "(cacheKey \<Rightarrow> 'e CacheEntry option) option"
  cachePolicy :: CachePolicy
  clock :: nat
  isKeyInLegalRange :: "TileKey \<Rightarrow> bool"
  mayHaveData :: "TileKey \<Rightarrow> bool"
  getBestAvailableTileKey :: "TileKey \<Rightarrow> TileKey option"
  getIntersectingTiles :: "TileKey \<Rightarrow> TileKey list"
  getIntersectingTilesAt :: "TileKey \<Rightarrow> nat \<Rightarrow> TileKey list"
  getEquivalentLOD :: "TileKey \<Rightarrow> nat"
  createHeightFieldImplementation :: "TileKey \<Rightarrow> 'e GeoHeightField"
  vdatumTransform :: "TileKey \<Rightarrow> 'e HeightField \<Rightarrow> 'e HeightField"
  invalidSample :: "'e \<Rightarrow> bool"
  calls :: "cacheCall list"

section \<open>validateHeightField and normalizeNoDataValues\<close>

definition validateHeightField :: "'e HeightField option \<Rightarrow> bool" where
  "validateHeightField hf =
     (case hf of
        None \<Rightarrow> False
      | Some h \<Rightarrow>
          if getNumRows h < 2 \<or> getNumRows h > 1024 then False
          else if getNumColumns h < 2 \<or> getNumColumns h > 1024 then False
          else if length (getHeightList h) \<noteq> getNumColumns h * getNumRows h then False
          else True)"

text \<open>
  \<^verbatim>\<open>invalidSample\<close> of the layer stands for the float test
  \<^verbatim>\<open>isNaN(v) || equivalent(v, getNoDataValue()) || v < getMinValidValue() || v > getMaxValidValue()\<close>.
\<close>

definition normalizeNoDataValues ::
  "'e \<Rightarrow> 'e ElevationLayer \<Rightarrow> 'e HeightField option \<Rightarrow> 'e HeightField option" where
  "normalizeNoDataValues nd L hf =
     (case hf of
        None \<Rightarrow> None
      | Some h \<Rightarrow>
          Some (h\<lparr>getHeightList :=
                    map (\<lambda>v. if invalidSample L v then nd else v) (getHeightList h)\<rparr>))"

section \<open>The cross-projection assembler: assembleHeightField\<close>

text \<open>
  What the assembler takes from GeoHeightField and the extent, none of it in this file:
  \<^verbatim>\<open>getElevationAndNormal\<close> (the sample and normal of a tile at a world coordinate, or
  failure; a query that succeeds may hand back the no-data sentinel as the sample), the
  world coordinate of an output pixel (\<^verbatim>\<open>minx + dx * c\<close>, \<^verbatim>\<open>miny + dy * r\<close> in
  doubles), and \<^verbatim>\<open>getXInterval\<close>, the spacing of the samples of a tile.
\<close>

record ('e, 'p, 'n, 'r) GeoOps =
  getElevationAndNormal :: "'e GeoHeightField \<Rightarrow> 'p \<Rightarrow> ('e \<times> 'n) option"
  pixelCoord :: "TileKey \<Rightarrow> nat \<Rightarrow> nat \<Rightarrow> nat \<Rightarrow> nat \<Rightarrow> 'p"
  getXInterval :: "'e GeoHeightField \<Rightarrow> 'r"
  upNormal :: 'n
  zeroHeight :: 'e

text \<open>
  Modelled from the spec: line 251 sorts the fetched tiles with \<^verbatim>\<open>std::sort\<close> and
  \<^verbatim>\<open>GeoHeightField::SortByResolutionFunctor\<close>, which is declared outside \<^verbatim>\<open>src/\<close>. The
  spec has: "then sort fetched tiles by resolution, finest first". The model orders the
  tiles by \<^verbatim>\<open>getXInterval\<close>, smallest spacing first. \<^verbatim>\<open>std::sort\<close> leaves the order of
  tiles of equal spacing open; the model keeps them in the order they were fetched.
\<close>

definition sortByResolution ::
  "('e, 'p, 'n, 'r::linorder) GeoOps \<Rightarrow> 'e GeoHeightField list \<Rightarrow> 'e GeoHeightField list" where
  "sortByResolution ops heightFields = sort_key (getXInterval ops) heightFields"

text \<open>
  The LOD-0 walk: starting at the equivalent LOD, go to coarser LODs of the layer's
  profile until a level has a tile that may have data, or LOD 0 has been tried.
\<close>

fun walkIntersectionLOD :: "'e ElevationLayer \<Rightarrow> TileKey \<Rightarrow> nat \<Rightarrow> TileKey list" where
  "walkIntersectionLOD L key 0 = getIntersectingTilesAt L key 0"
| "walkIntersectionLOD L key (Suc l) =
     (let tiles = getIntersectingTilesAt L key (Suc l) in
      if length (filter (mayHaveData L) tiles) = 0 then walkIntersectionLOD L key l
      else tiles)"

definition intersectingTiles :: "'e ElevationLayer \<Rightarrow> TileKey \<Rightarrow> TileKey list" where
  "intersectingTiles L key =
     (if getLOD key > 0 then getIntersectingTiles L key
      else walkIntersectionLOD L key (getEquivalentLOD L key))"

definition collectHeightFields :: "'e ElevationLayer \<Rightarrow> TileKey list \<Rightarrow> 'e GeoHeightField list" where
  "collectHeightFields L tiles =
     filter valid (map (createHeightFieldImplementation L) (filter (isKeyInLegalRange L) tiles))"

fun maxColumns :: "'e GeoHeightField list \<Rightarrow> nat \<Rightarrow> nat" where
  "maxColumns [] width = width"
| "maxColumns (g # gs) width =
     (case getHeightField g of
        None \<Rightarrow> maxColumns gs width
      | Some h \<Rightarrow> maxColumns gs (if getNumColumns h > width then getNumColumns h else width))"

fun maxRows :: "'e GeoHeightField list \<Rightarrow> nat \<Rightarrow> nat" where
  "maxRows [] height = height"
| "maxRows (g # gs) height =
     (case getHeightField g of
        None \<Rightarrow> maxRows gs height
      | Some h \<Rightarrow> maxRows gs (if getNumRows h > height then getNumRows h else height))"

text \<open>The inner loop over the tiles: the first one whose query succeeds, then \<^verbatim>\<open>break\<close>.\<close>

fun firstElevationAndNormal ::
  "('e, 'p, 'n, 'r) GeoOps \<Rightarrow> 'e GeoHeightField list \<Rightarrow> 'p \<Rightarrow> 'e \<times> 'n \<Rightarrow> 'e \<times> 'n" where
  "firstElevationAndNormal ops [] p en = en"
| "firstElevationAndNormal ops (g # gs) p en =
     (case getElevationAndNormal ops g p of
        Some en' \<Rightarrow> en'
      | None \<Rightarrow> firstElevationAndNormal ops gs p en)"

definition assemblePixel ::
  "'e \<Rightarrow> ('e, 'p, 'n, 'r) GeoOps \<Rightarrow> TileKey \<Rightarrow> 'e GeoHeightField list \<Rightarrow> nat \<Rightarrow> nat \<Rightarrow>
   nat \<Rightarrow> nat \<Rightarrow> 'e HeightField \<times> 'n NormalMap \<Rightarrow> 'e HeightField \<times> 'n NormalMap" where
  "assemblePixel nd ops key heightFields width height c r out =
     (let en = firstElevationAndNormal ops heightFields (pixelCoord ops key width height c r)
                 (nd, upNormal ops)
      in (setHeight c r (fst en) (fst out), nmSet c r (snd en) (snd out)))"

definition assembleColumn ::
  "'e \<Rightarrow> ('e, 'p, 'n, 'r) GeoOps \<Rightarrow> TileKey \<Rightarrow> 'e GeoHeightField list \<Rightarrow> nat \<Rightarrow> nat \<Rightarrow>
   nat \<Rightarrow> 'e HeightField \<times> 'n NormalMap \<Rightarrow> 'e HeightField \<times> 'n NormalMap" where
  "assembleColumn nd ops key heightFields width height c out =
     fold (assemblePixel nd ops key heightFields width height c) [0..<height] out"

definition assembleHeightField ::
  "'e \<Rightarrow> ('e, 'p, 'n, 'r::linorder) GeoOps \<Rightarrow> 'e ElevationLayer \<Rightarrow> TileKey \<Rightarrow> ProgressCallback option \<Rightarrow>
   'e HeightField option \<times> 'n NormalMap option" where
  "assembleHeightField nd ops L key progress =
     (let tiles = intersectingTiles L key;
          heightFields = collectHeightFields L tiles;
          out =
            (if length tiles > 0 \<and> length heightFields > 0 then
               (let width = maxColumns heightFields 0;
                    height = maxRows heightFields 0;
                    sorted = sortByResolution ops heightFields;
                    (hf, nm) = fold (assembleColumn nd ops key sorted width height) [0..<width]
                                 (allocate width height (zeroHeight ops), newNormalMap width height)
                in (Some hf, Some nm))
             else (None, None))
      in if isCanceled progress AssembleDone then (None, None) else out)"

section \<open>The single-source resolver: createHeightField\<close>

definition recordCall :: "cacheCall \<Rightarrow> 'e ElevationLayer \<Rightarrow> 'e ElevationLayer" where
  "recordCall c L = L\<lparr>calls := calls L @ [c]\<rparr>"

definition makeMemCacheKey :: "'e ElevationLayer \<Rightarrow> TileKey \<Rightarrow> memCacheKey" where
  "makeMemCacheKey L key = (getRevision L, key_str key, horizSignature (getProfile key))"

definition makeCacheKey :: "TileKey \<Rightarrow> cacheKey" where
  "makeCacheKey key = (key_str key, horizSignature (getProfile key))"

text \<open>\<^verbatim>\<open>disable\<close> belongs to Layer, outside this file: it leaves the layer in an error state.\<close>

definition disable :: "'e ElevationLayer \<Rightarrow> 'e ElevationLayer" where
  "disable L = L\<lparr>statusIsError := True\<rparr>"

definition memCacheWrite :: "TileKey \<Rightarrow> 'e HeightField \<Rightarrow> 'e ElevationLayer \<Rightarrow> 'e ElevationLayer" where
  "memCacheWrite key hf L =
     (case memCache L of
        None \<Rightarrow> L
      | Some m \<Rightarrow> recordCall MemCacheWrite (L\<lparr>memCache := Some (m(makeMemCacheKey L key \<mapsto> hf))\<rparr>))"

definition cacheBinWrite :: "TileKey \<Rightarrow> 'e HeightField \<Rightarrow> 'e ElevationLayer \<Rightarrow> 'e ElevationLayer" where
  "cacheBinWrite key hf L =
     (case cacheBin L of
        None \<Rightarrow> L
      | Some b \<Rightarrow>
          recordCall CacheBinWrite
            (L\<lparr>cacheBin := Some (b(makeCacheKey key \<mapsto>
                   \<lparr>cachedObject = Some hf, lastModifiedTime = clock L\<rparr>))\<rparr>))"

text \<open>
  Lines 403-419: the read of the persistent tier. The result is \<open>(hf, cachedHF, fromCache)\<close>:
  \<open>cachedHF\<close> is whatever object the entry held, \<open>hf\<close> is set only when that object
  validates and the entry has not expired.
\<close>

definition readCacheBin ::
  "'e ElevationLayer \<Rightarrow> TileKey \<Rightarrow>
   ('e HeightField option \<times> 'e HeightField option \<times> bool) \<times> 'e ElevationLayer" where
  "readCacheBin L key =
     (case cacheBin L of
        None \<Rightarrow> ((None, None, False), L)
      | Some b \<Rightarrow>
          if isCacheReadable (cachePolicy L) then
            (let L1 = recordCall CacheBinRead L in
             case b (makeCacheKey key) of
               None \<Rightarrow> ((None, None, False), L1)
             | Some r \<Rightarrow>
                 (let expired = isExpired (cachePolicy L) (lastModifiedTime r);
                      cachedHF = cachedObject r
                  in if cachedHF \<noteq> None \<and> validateHeightField cachedHF then
                       (if \<not> expired then ((cachedHF, cachedHF, True), L1)
                        else ((None, cachedHF, False), L1))
                     else ((None, cachedHF, False), L1)))
          else ((None, None, False), L))"

text \<open>
  Lines 440-451: the fresh grid, from the source when the key's profile is that of the
  layer, from the assembler otherwise.
\<close>

definition createFresh ::
  "'e \<Rightarrow> ('e, 'p, 'n, 'r::linorder) GeoOps \<Rightarrow> 'e ElevationLayer \<Rightarrow> Profile \<Rightarrow> TileKey \<Rightarrow>
   ProgressCallback option \<Rightarrow> 'e GeoHeightField \<times> 'e ElevationLayer" where
  "createFresh nd ops L lp key progress =
     (if horizSignature (getProfile key) = horizSignature lp then
        (createHeightFieldImplementation L key, recordCall (SourceCreate key) L)
      else
        (GeoHF (fst (assembleHeightField nd ops L key progress)) key,
         L\<lparr>calls := calls L @ map SourceCreate (filter (isKeyInLegalRange L) (intersectingTiles L key))\<rparr>))"

text \<open>
  Lines 459-509, on the grid just created: validate it, convert its vertical datum,
  rewrite its invalid samples, write it to the persistent tier, and fall back on the
  grid kept from the persistent tier when there is no grid left. The result is the grid
  \<^verbatim>\<open>hf\<close> then holds and the layer.
\<close>

definition validatedFresh :: "'e HeightField option \<Rightarrow> 'e HeightField option" where
  "validatedFresh hf = (if hf \<noteq> None \<and> \<not> validateHeightField hf then None else hf)"

definition toKeyDatum ::
  "'e ElevationLayer \<Rightarrow> Profile \<Rightarrow> TileKey \<Rightarrow> 'e HeightField option \<Rightarrow> 'e HeightField option" where
  "toKeyDatum L lp key hf =
     (case hf of
        None \<Rightarrow> None
      | Some h \<Rightarrow>
          if vertDatum (getProfile key) \<noteq> vertDatum lp then Some (vdatumTransform L key h)
          else Some h)"

definition processFresh ::
  "'e \<Rightarrow> 'e ElevationLayer \<Rightarrow> Profile \<Rightarrow> TileKey \<Rightarrow> 'e HeightField option \<Rightarrow>
   'e HeightField option" where
  "processFresh nd L lp key hf =
     normalizeNoDataValues nd L (toKeyDatum L lp key (validatedFresh hf))"

definition cacheFresh ::
  "'e ElevationLayer \<Rightarrow> TileKey \<Rightarrow> 'e HeightField option \<Rightarrow> bool \<Rightarrow> 'e ElevationLayer" where
  "cacheFresh L key hf fromCache =
     (case hf of
        None \<Rightarrow> L
      | Some h \<Rightarrow>
          if cacheBin L \<noteq> None \<and> \<not> fromCache \<and> isCacheWriteable (cachePolicy L)
          then cacheBinWrite key h L else L)"

definition orCached :: "'e HeightField option \<Rightarrow> 'e HeightField option \<Rightarrow> 'e HeightField option" where
  "orCached hf cachedHF = (if hf = None \<and> cachedHF \<noteq> None then cachedHF else hf)"

text \<open>
  Lines 427-516: there is nothing usable from the persistent tier, so create the grid.
  The result is the grid to go on with (\<open>None\<close>: the call returns INVALID at once).
  The creation is reached with a layer profile only: without one the call has returned
  before, disabled or cache-only.
\<close>

definition createAndCache ::
  "'e \<Rightarrow> ('e, 'p, 'n, 'r::linorder) GeoOps \<Rightarrow> 'e ElevationLayer \<Rightarrow> TileKey \<Rightarrow> ProgressCallback option \<Rightarrow>
   'e HeightField option \<Rightarrow> bool \<Rightarrow> 'e HeightField option \<times> 'e ElevationLayer" where
  "createAndCache nd ops L key progress cachedHF fromCache =
     (if \<not> isKeyInLegalRange L key then (None, L)
      else
        case layerProfile L of
          None \<Rightarrow> (None, L)
        | Some lp \<Rightarrow>
            (case createFresh nd ops L lp key progress of
               (result, L1) \<Rightarrow>
                 if isCanceled progress BeforeCacheWrite then (None, L1)
                 else
                   (let hf = processFresh nd L lp key (getHeightField result)
                    in (orCached hf cachedHF, cacheFresh L1 key hf fromCache))))"

text \<open>
  Lines 524-537: the check for cancellation before the memory-cache write, the write of a
  valid result that did not come from the memory cache, and the return.
\<close>

definition returnResult ::
  "'e ElevationLayer \<Rightarrow> TileKey \<Rightarrow> ProgressCallback option \<Rightarrow> 'e GeoHeightField \<Rightarrow> bool \<Rightarrow>
   'e GeoHeightField \<times> 'e ElevationLayer" where
  "returnResult L key progress result fromMemCache =
     (if isCanceled progress BeforeMemCacheWrite then (INVALID, L)
      else
        case getHeightField result of
          Some h \<Rightarrow>
            if valid result \<and> \<not> fromMemCache \<and> memCache L \<noteq> None
            then (result, memCacheWrite key h L) else (result, L)
        | None \<Rightarrow> (result, L))"

text \<open>Lines 384-522: the memory cache had nothing, so try the persistent tier, then create.\<close>

definition fromMainCache ::
  "'e \<Rightarrow> ('e, 'p, 'n, 'r::linorder) GeoOps \<Rightarrow> 'e ElevationLayer \<Rightarrow> TileKey \<Rightarrow> ProgressCallback option \<Rightarrow>
   'e GeoHeightField \<times> 'e ElevationLayer" where
  "fromMainCache nd ops L key progress =
     (if \<not> isCacheOnly (cachePolicy L) \<and> layerProfile L = None then (INVALID, disable L)
      else
        case readCacheBin L key of
          ((hf, cachedHF, fromCache), Lb) \<Rightarrow>
            if hf = None \<and> isCacheOnly (cachePolicy Lb) then (INVALID, Lb)
            else if hf = None then
              (case createAndCache nd ops Lb key progress cachedHF fromCache of
                 (None, Lc) \<Rightarrow> (INVALID, Lc)
               | (Some h, Lc) \<Rightarrow> returnResult Lc key progress (GeoHF (Some h) key) False)
            else returnResult Lb key progress (GeoHF hf key) False)"

definition createHeightFieldInKeyProfile ::
  "'e \<Rightarrow> ('e, 'p, 'n, 'r::linorder) GeoOps \<Rightarrow> 'e ElevationLayer \<Rightarrow> TileKey \<Rightarrow> ProgressCallback option \<Rightarrow>
   'e GeoHeightField \<times> 'e ElevationLayer" where
  "createHeightFieldInKeyProfile nd ops L key progress =
     (case memCache L of
        None \<Rightarrow> fromMainCache nd ops L key progress
      | Some m \<Rightarrow>
          (case m (makeMemCacheKey L key) of
             Some h \<Rightarrow>
               returnResult (recordCall MemCacheRead L) key progress (GeoHF (Some h) key) True
           | None \<Rightarrow> fromMainCache nd ops (recordCall MemCacheRead L) key progress))"

definition createHeightField ::
  "'e \<Rightarrow> ('e, 'p, 'n, 'r::linorder) GeoOps \<Rightarrow> 'e ElevationLayer \<Rightarrow> TileKey \<Rightarrow> ProgressCallback option \<Rightarrow>
   'e GeoHeightField \<times> 'e ElevationLayer" where
  "createHeightField nd ops L key progress =
     (if statusIsError L then (INVALID, L)
      else if getEnabled L = False then (INVALID, L)
      else createHeightFieldInKeyProfile nd ops L key progress)"

section \<open>Reading the cache tiers at a key\<close>

definition binAt :: "'e ElevationLayer \<Rightarrow> TileKey \<Rightarrow> 'e CacheEntry option" where
  "binAt L key = (case cacheBin L of None \<Rightarrow> None | Some b \<Rightarrow> b (makeCacheKey key))"

definition memAt :: "'e ElevationLayer \<Rightarrow> TileKey \<Rightarrow> 'e HeightField option" where
  "memAt L key = (case memCache L of None \<Rightarrow> None | Some m \<Rightarrow> m (makeMemCacheKey L key))"

section \<open>Concrete layers, keys and grids\<close>

text \<open>Samples are integers here, with \<open>- 1000\<close> as the no-data sentinel.\<close>

definition exProfile :: Profile where
  "exProfile = \<lparr>horizSignature = 1, vertDatum = 0\<rparr>"

definition exKey :: TileKey where
  "exKey = \<lparr>getLOD = 3, getTileX = 2, getTileY = 5, getProfile = exProfile\<rparr>"

definition exGrid :: "int HeightField" where
  "exGrid = \<lparr>getNumColumns = 2, getNumRows = 2, getHeightList = [10, 20, 30, 40]\<rparr>"

definition exOldGrid :: "int HeightField" where
  "exOldGrid = \<lparr>getNumColumns = 2, getNumRows = 2, getHeightList = [1, 2, 3, 4]\<rparr>"

definition exXInterval :: "int GeoHeightField \<Rightarrow> nat" where
  "exXInterval g = (case getExtentKey g of None \<Rightarrow> 0 | Some k \<Rightarrow> 100 - getLOD k)"

definition exOps :: "(int, nat \<times> nat, int, nat) GeoOps" where
  "exOps = \<lparr>getElevationAndNormal = (\<lambda>g p. None), pixelCoord = (\<lambda>k w h c r. (c, r)),
            getXInterval = exXInterval,
            upNormal = 1, zeroHeight = 0\<rparr>"

definition exPolicy :: CachePolicy where
  "exPolicy = \<lparr>isCacheReadable = True, isCacheWriteable = True, isCacheOnly = False,
               isExpired = (\<lambda>t. t < 5)\<rparr>"

text \<open>
  A layer with both cache tiers, empty, whose source answers every key with \<open>exGrid\<close>.
\<close>

definition exLayer :: "int ElevationLayer" where
  "exLayer = \<lparr>statusIsError = False, getEnabled = True, getVisible = True, isOffset = False,
     getTileSize = 2, getMinLevel = 0, getRevision = 7, layerProfile = Some exProfile,
     memCache = Some (\<lambda>k. None), cacheBin = Some (\<lambda>k. None), cachePolicy = exPolicy, clock = 10,
     isKeyInLegalRange = (\<lambda>k. True), mayHaveData = (\<lambda>k. True),
     getBestAvailableTileKey = (\<lambda>k. Some k), getIntersectingTiles = (\<lambda>k. []),
     getIntersectingTilesAt = (\<lambda>k l. []), getEquivalentLOD = (\<lambda>k. 0),
     createHeightFieldImplementation = (\<lambda>k. GeoHF (Some exGrid) k),
     vdatumTransform = (\<lambda>k h. h), invalidSample = (\<lambda>v. False), calls = []\<rparr>"

text \<open>A token that is cancelled between the two checks of the resolver.\<close>

definition cancelLate :: ProgressCallback where
  "cancelLate cp = (cp = BeforeMemCacheWrite)"

definition cancelAlways :: ProgressCallback where
  "cancelAlways cp = True"

section \<open>The persistent-tier entry and the fresh grid of a resolve call\<close>

text \<open>
  \<open>cacheHit\<close> is the entry the resolver reads from the persistent tier (none when the
  policy is not readable), \<open>rawFresh\<close> the grid the source or the assembler hands back,
  \<open>freshGrid\<close> that grid after validation, datum conversion and sanitation (\<open>None\<close>
  when there is no grid or it fails validation), and \<open>sourceCreates\<close> the keys the
  source was asked for.
\<close>

definition cacheHit :: "'e ElevationLayer \<Rightarrow> TileKey \<Rightarrow> 'e CacheEntry option" where
  "cacheHit L key = (if isCacheReadable (cachePolicy L) then binAt L key else None)"

definition rawFresh ::
  "'e \<Rightarrow> ('e, 'p, 'n, 'r::linorder) GeoOps \<Rightarrow> 'e ElevationLayer \<Rightarrow> TileKey \<Rightarrow> ProgressCallback option \<Rightarrow>
   'e HeightField option" where
  "rawFresh nd ops L key progress =
     (case layerProfile L of
        None \<Rightarrow> None
      | Some lp \<Rightarrow> getHeightField (fst (createFresh nd ops L lp key progress)))"

definition freshGrid ::
  "'e \<Rightarrow> ('e, 'p, 'n, 'r::linorder) GeoOps \<Rightarrow> 'e ElevationLayer \<Rightarrow> TileKey \<Rightarrow> ProgressCallback option \<Rightarrow>
   'e HeightField option" where
  "freshGrid nd ops L key progress =
     (case layerProfile L of
        None \<Rightarrow> None
      | Some lp \<Rightarrow> processFresh nd L lp key (rawFresh nd ops L key progress))"

definition sourceCreates :: "'e ElevationLayer \<Rightarrow> TileKey list" where
  "sourceCreates L = [k. SourceCreate k \<leftarrow> calls L]"

section \<open>Concrete layers with an expired persistent entry\<close>

definition exBadGrid :: "int HeightField" where
  "exBadGrid = \<lparr>getNumColumns = 1, getNumRows = 1, getHeightList = [99]\<rparr>"

definition exStaleEntry :: "int CacheEntry" where
  "exStaleEntry = \<lparr>cachedObject = Some exOldGrid, lastModifiedTime = 2\<rparr>"

definition exStaleLayer :: "int ElevationLayer" where
  "exStaleLayer = exLayer\<lparr>cacheBin := Some (\<lambda>k. if k = makeCacheKey exKey then Some exStaleEntry else None)\<rparr>"

definition exStaleBrokenLayer :: "int ElevationLayer" where
  "exStaleBrokenLayer = exStaleLayer\<lparr>createHeightFieldImplementation := (\<lambda>k. GeoHF (Some exBadGrid) k)\<rparr>"


section \<open>A grid held by the memory cache\<close>

text \<open>
  \<open>memPinned L key h\<close>: the layer is enabled and in no error state, and its memory cache
  holds \<open>h\<close> under the key made of the layer's revision, the tile key and the
  signature of the key's profile.
\<close>

definition memPinned :: "'e ElevationLayer \<Rightarrow> TileKey \<Rightarrow> 'e HeightField \<Rightarrow> bool" where
  "memPinned L key h = (\<not> statusIsError L \<and> getEnabled L \<and> memAt L key = Some h)"

section \<open>What the assembler is to produce\<close>

text \<open>
  \<open>wellSized\<close>: the grid has as many samples as its dimensions say. \<open>assembledSample\<close>
  is the sample and normal of the first tile, in the given order, whose query at the
  pixel's world coordinate succeeds, whatever the sample, and the no-data sentinel with
  the up-facing normal when there is none. \<open>firstDataSample\<close> follows the spec's words
  ("the first tile that returns a non-no-data sample at that coordinate wins"): the
  sample and normal of the first tile whose query succeeds with a sample other than the
  no-data sentinel. \<open>tileColumns\<close> and \<open>tileRows\<close> are the dimensions of a fetched
  tile.
\<close>

definition wellSized :: "'e HeightField \<Rightarrow> bool" where
  "wellSized hf = (length (getHeightList hf) = getNumColumns hf * getNumRows hf)"





section \<open>Concrete tiles for the assembler\<close>









section \<open>The multi-source compositor: populateHeightFieldAndNormalMap\<close>

text \<open>
  What the compositor takes from outside this file: \<^verbatim>\<open>layer->createHeightField\<close> as the
  compositor sees it during one call (the resolver's answer for a layer and a key; the
  resolver's caches only memoise it), \<^verbatim>\<open>GeoHeightField::getElevation\<close> (the sample of
  a tile at a world coordinate, or failure), \<^verbatim>\<open>TileKey::mapResolution\<close>, the world
  coordinate of an output pixel (\<^verbatim>\<open>xmin + dx * c\<close>, \<^verbatim>\<open>ymin + dy * r\<close> in doubles) and
  \<^verbatim>\<open>HeightFieldUtils::resolveInvalidHeights\<close>.
\<close>

record ('e, 'p, 'i) CompositeOps =
  layerCreateHeightField :: "'e ElevationLayer \<Rightarrow> TileKey \<Rightarrow> ProgressCallback option \<Rightarrow> 'e GeoHeightField"
  getElevation :: "'e GeoHeightField \<Rightarrow> 'p \<Rightarrow> 'i \<Rightarrow> 'e option"
  mapResolution :: "TileKey \<Rightarrow> nat \<Rightarrow> nat \<Rightarrow> TileKey"
  samplePoint :: "TileKey \<Rightarrow> nat \<Rightarrow> nat \<Rightarrow> nat \<Rightarrow> nat \<Rightarrow> 'p"
  resolveInvalidHeights :: "'e HeightField \<Rightarrow> 'e HeightField"

record 'e LayerData =
  ldLayer :: "'e ElevationLayer"
  ldKey :: TileKey
  ldIndex :: int

text \<open>
  Lines 747-821, one turn of the loop over the layers: \<open>(contenders, offsets,
  numFallbackLayers)\<close> after the layer at position \<open>i\<close>.
\<close>

definition considerLayer ::
  "('e, 'p, 'i) CompositeOps \<Rightarrow> TileKey \<Rightarrow> TileKey \<Rightarrow> nat \<Rightarrow> nat \<times> 'e ElevationLayer \<Rightarrow>
   'e LayerData list \<times> 'e LayerData list \<times> nat \<Rightarrow> 'e LayerData list \<times> 'e LayerData list \<times> nat" where
  "considerLayer ops key keyToUse numColumns il acc =
     (case (il, acc) of
        ((i, layer), (contenders, offsets, numFallbackLayers)) \<Rightarrow>
          if getEnabled layer \<and> getVisible layer then
            (let mappedKey = mapResolution ops keyToUse numColumns (getTileSize layer) in
             if getLOD key < getMinLevel layer then (contenders, offsets, numFallbackLayers)
             else
               case getBestAvailableTileKey layer mappedKey of
                 None \<Rightarrow> (contenders, offsets, numFallbackLayers)
               | Some bestKey \<Rightarrow>
                   (let n = (if mappedKey \<noteq> bestKey then numFallbackLayers + 1
                             else numFallbackLayers);
                        ld = \<lparr>ldLayer = layer, ldKey = bestKey, ldIndex = int i\<rparr>
                    in if isOffset layer then (contenders, offsets @ [ld], n)
                       else (contenders @ [ld], offsets, n)))
          else (contenders, offsets, numFallbackLayers))"

text \<open>The layers are checked in reverse order, since the highest priority is last.\<close>

definition collectLayers ::
  "('e, 'p, 'i) CompositeOps \<Rightarrow> 'e ElevationLayer list \<Rightarrow> TileKey \<Rightarrow> TileKey \<Rightarrow> nat \<Rightarrow>
   'e LayerData list \<times> 'e LayerData list \<times> nat" where
  "collectLayers ops layers key keyToUse numColumns =
     fold (considerLayer ops key keyToUse numColumns) (rev (enumerate 0 layers)) ([], [], 0)"

text \<open>
  The local state of the sampling loops. \<open>fetchLog\<close> is not a variable of the code: it
  lists the calls of \<^verbatim>\<open>createHeightField\<close> (position of the layer, key) in order.
\<close>

record 'e Sampling =
  outHF :: "'e HeightField"
  deltaLOD :: "16 word list option"
  heightFields :: "'e GeoHeightField list"
  offsetFields :: "'e GeoHeightField list"
  heightFallback :: "bool list"
  heightFailed :: "bool list"
  offsetFailed :: "bool list"
  numHeightFieldsInCache :: nat
  realData :: bool
  nodataCount :: int
  fetchLog :: "(int \<times> TileKey) list"

text \<open>
  Lines 939-951: create the grid of a contender at its key, falling back on parent keys
  while there is no grid, the key is valid and the key is in the layer's legal range.
  The result is \<^verbatim>\<open>layerHF\<close>, \<^verbatim>\<open>*actualKey\<close> (\<open>None\<close> when it ended invalid) and the
  keys \<^verbatim>\<open>createHeightField\<close> was called with.
\<close>

function fetchWithFallback ::
  "('e, 'p, 'i) CompositeOps \<Rightarrow> ProgressCallback option \<Rightarrow> 'e ElevationLayer \<Rightarrow>
   'e GeoHeightField \<Rightarrow> TileKey \<Rightarrow> 'e GeoHeightField \<times> TileKey option \<times> TileKey list" where
  "fetchWithFallback ops progress layer layerHF actualKey =
     (if \<not> isKeyInLegalRange layer actualKey then (layerHF, Some actualKey, [])
      else if valid (layerCreateHeightField ops layer actualKey progress)
      then (layerCreateHeightField ops layer actualKey progress, Some actualKey, [actualKey])
      else
        case createParentKey actualKey of
          None \<Rightarrow> (layerCreateHeightField ops layer actualKey progress, None, [actualKey])
        | Some parent \<Rightarrow>
            (case fetchWithFallback ops progress layer
                    (layerCreateHeightField ops layer actualKey progress) parent of
               (g, k, tried) \<Rightarrow> (g, k, actualKey # tried)))"
  by pat_completeness auto
termination
  by (relation "measure (\<lambda>(ops, progress, layer, layerHF, actualKey). getLOD actualKey)")
     (auto simp: createParentKey_def split: if_splits)

definition setDelta :: "nat \<Rightarrow> nat \<Rightarrow> nat \<Rightarrow> nat \<Rightarrow> nat \<Rightarrow> 16 word list option \<Rightarrow> 16 word list option" where
  "setDelta numColumns c r keyLOD tileLOD d =
     (case d of
        None \<Rightarrow> None
      | Some a \<Rightarrow> Some (a[r * numColumns + c := of_nat keyLOD - of_nat tileLOD]))"

definition clearHeightFields :: "'e Sampling \<Rightarrow> 'e Sampling" where
  "clearHeightFields st =
     st\<lparr>heightFields := map (\<lambda>_. INVALID) (heightFields st),
        heightFallback := map (\<lambda>_. False) (heightFallback st),
        numHeightFieldsInCache := 0\<rparr>"

text \<open>Lines 935-969: make sure \<^verbatim>\<open>heightFields[i]\<close> holds a grid. The result is the state,
  the key the grid was created with, and whether there is a grid.\<close>

definition loadContender ::
  "('e, 'p, 'i) CompositeOps \<Rightarrow> ProgressCallback option \<Rightarrow> 'e LayerData \<Rightarrow> nat \<Rightarrow> 'e Sampling \<Rightarrow>
   'e Sampling \<times> TileKey option \<times> bool" where
  "loadContender ops progress ld i st =
     (if \<not> valid (heightFields st ! i) then
        (case fetchWithFallback ops progress (ldLayer ld) (heightFields st ! i) (ldKey ld) of
           (layerHF, actualKey, tried) \<Rightarrow>
             if valid layerHF then
               (st\<lparr>heightFields := (heightFields st)[i := layerHF],
                   heightFallback := (heightFallback st)[i := (actualKey \<noteq> Some (ldKey ld))],
                   numHeightFieldsInCache := numHeightFieldsInCache st + 1,
                   fetchLog := fetchLog st @ map (Pair (ldIndex ld)) tried\<rparr>,
                actualKey, True)
             else
               (st\<lparr>heightFields := (heightFields st)[i := layerHF],
                   heightFailed := (heightFailed st)[i := True],
                   fetchLog := fetchLog st @ map (Pair (ldIndex ld)) tried\<rparr>,
                actualKey, False))
      else (st, Some (ldKey ld), True))"

text \<open>Lines 971-1009: sample the grid of contender \<open>i\<close> at the pixel.\<close>

definition sampleLoaded ::
  "('e, 'p, 'i) CompositeOps \<Rightarrow> 'e \<Rightarrow> TileKey \<Rightarrow> 'i \<Rightarrow> 'e LayerData \<Rightarrow> nat \<Rightarrow> nat \<Rightarrow> nat \<Rightarrow>
   TileKey option \<Rightarrow> 'e Sampling \<times> int \<Rightarrow> 'e Sampling \<times> int" where
  "sampleLoaded ops nd key interpolation ld i c r actualKey sr =
     (case sr of
        (st, resolvedIndex) \<Rightarrow>
          (let st1 = (if \<not> heightFallback st ! i then st\<lparr>realData := True\<rparr> else st) in
           case getElevation ops (heightFields st ! i)
                  (samplePoint ops key (getNumColumns (outHF st)) (getNumRows (outHF st)) c r)
                  interpolation of
             None \<Rightarrow> (st1, resolvedIndex)
           | Some elevation \<Rightarrow>
               if elevation \<noteq> nd then
                 (st1\<lparr>outHF := setHeight c r elevation (outHF st1),
                      deltaLOD :=
                        (case actualKey of
                           None \<Rightarrow> deltaLOD st
                         | Some k \<Rightarrow>
                             setDelta (getNumColumns (outHF st)) c r (getLOD key) (getLOD k)
                               (deltaLOD st))\<rparr>,
                  ldIndex ld)
               else (st1\<lparr>nodataCount := nodataCount st1 + 1\<rparr>, resolvedIndex)))"

text \<open>Lines 922-1023: one turn of the loop over the contenders, which runs while
  \<^verbatim>\<open>resolvedIndex < 0\<close>.\<close>

definition sampleContender ::
  "('e, 'p, 'i) CompositeOps \<Rightarrow> 'e \<Rightarrow> TileKey \<Rightarrow> 'i \<Rightarrow> ProgressCallback option \<Rightarrow>
   'e LayerData list \<Rightarrow> nat \<Rightarrow> nat \<Rightarrow> nat \<Rightarrow> 'e Sampling \<times> int \<Rightarrow> 'e Sampling \<times> int" where
  "sampleContender ops nd key interpolation progress contenders c r i sr =
     (case sr of
        (st, resolvedIndex) \<Rightarrow>
          if \<not> resolvedIndex < 0 then (st, resolvedIndex)
          else if heightFailed st ! i then (st, resolvedIndex)
          else
            case loadContender ops progress (contenders ! i) i st of
              (st1, actualKey, loaded) \<Rightarrow>
                if \<not> loaded then (st1, resolvedIndex)
                else
                  case sampleLoaded ops nd key interpolation (contenders ! i) i c r actualKey
                         (st1, resolvedIndex) of
                    (st2, resolved) \<Rightarrow>
                      if numHeightFieldsInCache st2 \<ge> 50 then (clearHeightFields st2, resolved)
                      else (st2, resolved))"

text \<open>Lines 1035-1046: make sure \<^verbatim>\<open>offsetFields[i]\<close> holds a grid, created at the key of the
  offset layer, with no fallback on parent keys.\<close>

definition loadOffset ::
  "('e, 'p, 'i) CompositeOps \<Rightarrow> ProgressCallback option \<Rightarrow> 'e LayerData \<Rightarrow> nat \<Rightarrow> 'e Sampling \<Rightarrow>
   'e Sampling" where
  "loadOffset ops progress ld i st =
     (if \<not> valid (offsetFields st ! i) then
        (let fetched = layerCreateHeightField ops (ldLayer ld) (ldKey ld) progress
         in st\<lparr>offsetFields := (offsetFields st)[i := fetched],
               offsetFailed := (if \<not> valid fetched then (offsetFailed st)[i := True]
                                else offsetFailed st),
               fetchLog := fetchLog st @ [(ldIndex ld, ldKey ld)]\<rparr>)
      else st)"

text \<open>Lines 1025-1067: one turn of the loop over the offsets.\<close>

definition applyOffset ::
  "('e::plus, 'p, 'i) CompositeOps \<Rightarrow> 'e \<Rightarrow> TileKey \<Rightarrow> 'i \<Rightarrow> ProgressCallback option \<Rightarrow>
   'e LayerData list \<Rightarrow> nat \<Rightarrow> nat \<Rightarrow> int \<Rightarrow> nat \<Rightarrow> 'e Sampling \<Rightarrow> 'e Sampling" where
  "applyOffset ops nd key interpolation progress offsets c r resolvedIndex i st =
     (if resolvedIndex \<ge> 0 \<and> ldIndex (offsets ! i) < resolvedIndex then st
      else if offsetFailed st ! i = True then st
      else
        (let contenderKey = ldKey (offsets ! i);
             st1 = loadOffset ops progress (offsets ! i) i st
         in if \<not> valid (offsetFields st1 ! i) then st1
            else
              (let st2 = st1\<lparr>realData := True\<rparr> in
               case getElevation ops (offsetFields st1 ! i)
                      (samplePoint ops key (getNumColumns (outHF st)) (getNumRows (outHF st)) c r)
                      interpolation of
                 None \<Rightarrow> st2
               | Some elevation \<Rightarrow>
                   if elevation \<noteq> nd then
                     st2\<lparr>outHF := setHeight c r (getHeight (outHF st2) c r + elevation) (outHF st2),
                         deltaLOD := setDelta (getNumColumns (outHF st)) c r (getLOD key)
                                       (getLOD contenderKey) (deltaLOD st2)\<rparr>
                   else st2)))"

text \<open>Lines 913-1068: one pixel. The contenders from the first on, then the offsets from
  the last back to the first.\<close>

definition samplePixel ::
  "('e::plus, 'p, 'i) CompositeOps \<Rightarrow> 'e \<Rightarrow> TileKey \<Rightarrow> 'i \<Rightarrow> ProgressCallback option \<Rightarrow>
   'e LayerData list \<Rightarrow> 'e LayerData list \<Rightarrow> nat \<Rightarrow> nat \<Rightarrow> 'e Sampling \<Rightarrow> 'e Sampling" where
  "samplePixel ops nd key interpolation progress contenders offsets c r st =
     (case fold (sampleContender ops nd key interpolation progress contenders c r)
             [0..<length contenders] (st, - 1) of
        (st1, resolvedIndex) \<Rightarrow>
          fold (applyOffset ops nd key interpolation progress offsets c r resolvedIndex)
            (rev [0..<length offsets]) st1)"

definition sampleColumn ::
  "('e::plus, 'p, 'i) CompositeOps \<Rightarrow> 'e \<Rightarrow> TileKey \<Rightarrow> 'i \<Rightarrow> ProgressCallback option \<Rightarrow>
   'e LayerData list \<Rightarrow> 'e LayerData list \<Rightarrow> nat \<Rightarrow> nat \<Rightarrow> 'e Sampling \<Rightarrow> 'e Sampling" where
  "sampleColumn ops nd key interpolation progress contenders offsets numRows c st =
     fold (samplePixel ops nd key interpolation progress contenders offsets c) [0..<numRows] st"

text \<open>Lines 903-1069: the columns, with the check for cancellation at the start of each.
  The result says whether the loop was left by \<^verbatim>\<open>return false\<close>.\<close>

fun sampleColumns ::
  "('e::plus, 'p, 'i) CompositeOps \<Rightarrow> 'e \<Rightarrow> TileKey \<Rightarrow> 'i \<Rightarrow> ProgressCallback option \<Rightarrow>
   'e LayerData list \<Rightarrow> 'e LayerData list \<Rightarrow> nat \<Rightarrow> nat list \<Rightarrow> 'e Sampling \<Rightarrow> bool \<times> 'e Sampling" where
  "sampleColumns ops nd key interpolation progress contenders offsets numRows [] st = (False, st)"
| "sampleColumns ops nd key interpolation progress contenders offsets numRows (c # cs) st =
     (if isCanceled progress (ColumnStart c) then (True, st)
      else sampleColumns ops nd key interpolation progress contenders offsets numRows cs
             (sampleColumn ops nd key interpolation progress contenders offsets numRows c st))"


section \<open>Normal synthesis: getNormal and createNormalMap\<close>

text \<open>
  The vector arithmetic of \<^verbatim>\<open>osg::Vec3\<close> and the pixel spacing (the extent divided by
  the grid size, converted to metres and scaled by the cosine of the latitude for a
  geographic extent) are floating-point operations outside this file; they are taken as
  given. \<open>'d\<close> is the type of distances, \<open>'n\<close> the type of vectors.
\<close>

record ('d, 'e, 'n) NormalOps =
  spacingX :: "TileKey \<Rightarrow> nat \<Rightarrow> nat \<Rightarrow> int \<Rightarrow> 'd"
  spacingY :: "TileKey \<Rightarrow> nat \<Rightarrow> nat \<Rightarrow> 'd"
  zeroD :: 'd
  negD :: "'d \<Rightarrow> 'd"
  vec3 :: "'d \<Rightarrow> 'd \<Rightarrow> 'e \<Rightarrow> 'n"
  vminus :: "'n \<Rightarrow> 'n \<Rightarrow> 'n"
  vplus :: "'n \<Rightarrow> 'n \<Rightarrow> 'n"
  vcross :: "'n \<Rightarrow> 'n \<Rightarrow> 'n"
  vscale :: "'n \<Rightarrow> int \<Rightarrow> 'n"
  normalize :: "'n \<Rightarrow> 'n"

definition heightAt :: "'e HeightField \<Rightarrow> int \<Rightarrow> int \<Rightarrow> 'e" where
  "heightAt hf s t = getHeight hf (nat s) (nat t)"

definition getNormal ::
  "('d, 'e, 'n) NormalOps \<Rightarrow> TileKey \<Rightarrow> 'e HeightField \<Rightarrow> int \<Rightarrow> int \<Rightarrow> 'n" where
  "getNormal nops extent hf s t =
     (let w = int (getNumColumns hf);
          h = int (getNumRows hf);
          e = heightAt hf s t;
          dx = spacingX nops extent (getNumColumns hf) (getNumRows hf) t;
          dy = spacingY nops extent (getNumColumns hf) (getNumRows hf);
          west = (if s > 0 then vec3 nops (negD nops dx) (zeroD nops) (heightAt hf (s - 1) t)
                  else vec3 nops (zeroD nops) (zeroD nops) e);
          east = (if s < w - 1 then vec3 nops dx (zeroD nops) (heightAt hf (s + 1) t)
                  else vec3 nops (zeroD nops) (zeroD nops) e);
          south = (if t > 0 then vec3 nops (zeroD nops) (negD nops dy) (heightAt hf s (t - 1))
                   else vec3 nops (zeroD nops) (zeroD nops) e);
          north = (if t < h - 1 then vec3 nops (zeroD nops) dy (heightAt hf s (t + 1))
                   else vec3 nops (zeroD nops) (zeroD nops) e)
      in vcross nops (vminus nops east west) (vminus nops north south))"

text \<open>
  \<^verbatim>\<open>int step = 1 << (*deltaLOD)[t*h + s]\<close>: the entry is read at \<open>t * h + s\<close> with \<open>h\<close>
  the number of rows. \<open>None\<close> stands for undefined behaviour of the C++: a read past the
  end of the array, or a shift by a negative amount or by 31 bits and more.
\<close>

definition stepAt :: "16 word list \<Rightarrow> nat \<Rightarrow> int \<Rightarrow> int \<Rightarrow> int option" where
  "stepAt deltas h s t =
     (let i = nat (t * int h + s) in
      if i < length deltas then
        (let d = sint (deltas ! i) in
         if 0 \<le> d \<and> d < 31 then Some (2 ^ nat d) else None)
      else None)"

text \<open>Lines 658-661: the four corners \<open>(s0, s1, t0, t1)\<close> for a step other than 1.\<close>

definition corners :: "int \<Rightarrow> int \<Rightarrow> int \<Rightarrow> int \<Rightarrow> int \<Rightarrow> int \<times> int \<times> int \<times> int" where
  "corners w h step s t =
     (let s0 = max (s - (s mod step)) 0;
          s1 = (if s mod step = 0 then s0 else min (s0 + step) (w - 1));
          t0 = max (t - (t mod step)) 0;
          t1 = (if t mod step = 0 then t0 else min (t0 + step) (h - 1))
      in (s0, s1, t0, t1))"

definition interpolatedNormal ::
  "('d, 'e, 'n) NormalOps \<Rightarrow> TileKey \<Rightarrow> 'e HeightField \<Rightarrow> int \<Rightarrow> int \<Rightarrow> int \<Rightarrow> 'n" where
  "interpolatedNormal nops extent hf step s t =
     (if step = 1 then getNormal nops extent hf s t
      else
        case corners (int (getNumColumns hf)) (int (getNumRows hf)) step s t of
          (s0, s1, t0, t1) \<Rightarrow>
            if s0 = s1 \<and> t0 = t1 then getNormal nops extent hf s0 t0
            else if s0 = s1 then
              vplus nops (vscale nops (getNormal nops extent hf s0 t0) (t1 - t))
                         (vscale nops (getNormal nops extent hf s0 t1) (t - t0))
            else if t0 = t1 then
              vplus nops (vscale nops (getNormal nops extent hf s0 t0) (s1 - s))
                         (vscale nops (getNormal nops extent hf s1 t0) (s - s0))
            else
              (let S = vplus nops (vscale nops (getNormal nops extent hf s0 t0) (s1 - s))
                                  (vscale nops (getNormal nops extent hf s1 t0) (s - s0));
                   N = vplus nops (vscale nops (getNormal nops extent hf s0 t1) (s1 - s))
                                  (vscale nops (getNormal nops extent hf s1 t1) (s - s0))
               in vplus nops (vscale nops S (t1 - t)) (vscale nops N (t - t0))))"

definition normalPixel ::
  "('d, 'e, 'n) NormalOps \<Rightarrow> TileKey \<Rightarrow> 'e HeightField \<Rightarrow> 16 word list \<Rightarrow> nat \<Rightarrow> nat \<Rightarrow>
   'n NormalMap option \<Rightarrow> 'n NormalMap option" where
  "normalPixel nops extent hf deltas t s nm =
     (case nm of
        None \<Rightarrow> None
      | Some m \<Rightarrow>
          (case stepAt deltas (getNumRows hf) (int s) (int t) of
             None \<Rightarrow> None
           | Some step \<Rightarrow>
               Some (nmSet s t (normalize nops (interpolatedNormal nops extent hf step (int s) (int t))) m)))"

definition createNormalMap ::
  "('d, 'e, 'n) NormalOps \<Rightarrow> TileKey \<Rightarrow> 'e HeightField \<Rightarrow> 16 word list \<Rightarrow> 'n NormalMap \<Rightarrow>
   'n NormalMap option" where
  "createNormalMap nops extent hf deltas normalMap =
     fold (\<lambda>t nm. fold (normalPixel nops extent hf deltas t) [0..<getNumColumns hf] nm)
       [0..<getNumRows hf] (Some normalMap)"

section \<open>populateHeightFieldAndNormalMap\<close>

record ('e, 'n) Composite =
  realDataOut :: bool
  hfOut :: "'e HeightField option"
  normalMapOut :: "'n NormalMap option"
  fetches :: "(int \<times> TileKey) list"

definition initialSampling ::
  "'e HeightField \<Rightarrow> bool \<Rightarrow> nat \<Rightarrow> nat \<Rightarrow> 'e Sampling" where
  "initialSampling h wantNormals numContenders numOffsets =
     \<lparr>outHF = h,
      deltaLOD = (if wantNormals then Some (replicate (getNumColumns h * getNumRows h) 0) else None),
      heightFields = replicate numContenders INVALID,
      offsetFields = replicate numOffsets INVALID,
      heightFallback = replicate numContenders False,
      heightFailed = replicate numContenders False,
      offsetFailed = replicate numOffsets False,
      numHeightFieldsInCache = 0, realData = False, nodataCount = 0, fetchLog = []\<rparr>"

text \<open>
  Lines 875-898, the single contender whose tile has the size of the output grid. The
  \<^verbatim>\<open>memcpy\<close> copies as many samples as the output grid holds; where the tile holds fewer
  (the C++ then reads past its end) the model leaves the remaining samples as they were.
  The result is \<^verbatim>\<open>requiresResample\<close> and the state.
\<close>

definition copySingleContender ::
  "('e, 'p, 'i) CompositeOps \<Rightarrow> 'e LayerData list \<Rightarrow> 'e LayerData list \<Rightarrow> 'e Sampling \<Rightarrow>
   bool \<times> 'e Sampling" where
  "copySingleContender ops contenders offsets st =
     (if length contenders = 1 \<and> offsets = [] then
        (let ld = contenders ! 0;
             layerHF = layerCreateHeightField ops (ldLayer ld) (ldKey ld) None;
             st1 = st\<lparr>fetchLog := fetchLog st @ [(ldIndex ld, ldKey ld)]\<rparr>
         in case getHeightField layerHF of
              None \<Rightarrow> (True, st1)
            | Some g \<Rightarrow>
                if valid layerHF \<and> getNumColumns g = getNumColumns (outHF st) \<and>
                   getNumRows g = getNumRows (outHF st)
                then
                  (False,
                   st1\<lparr>outHF := (outHF st)\<lparr>getHeightList :=
                            take (length (getHeightList (outHF st))) (getHeightList g) @
                            drop (length (getHeightList g)) (getHeightList (outHF st))\<rparr>,
                       deltaLOD :=
                         (case deltaLOD st of
                            None \<Rightarrow> None
                          | Some a \<Rightarrow>
                              Some (take (length (getHeightList (outHF st)))
                                      (a @ replicate (length (getHeightList (outHF st)) - length a) 0))),
                       realData := True\<rparr>)
                else (True, st1))
      else (True, st))"

text \<open>Lines 1072-1113, after the sampling.\<close>

definition finishComposite ::
  "('e, 'p, 'i) CompositeOps \<Rightarrow> ('d, 'e, 'n) NormalOps \<Rightarrow> TileKey \<Rightarrow> ProgressCallback option \<Rightarrow>
   'n NormalMap option \<Rightarrow> 'e Sampling \<Rightarrow> ('e, 'n) Composite option" where
  "finishComposite ops nops key progress normalMap st =
     (let ret = (\<lambda>nm.
            Some \<lparr>realDataOut = (if isCanceled progress BeforeReturn then False else realData st),
                  hfOut = Some (resolveInvalidHeights ops (outHF st)),
                  normalMapOut = nm, fetches = fetchLog st\<rparr>)
      in case normalMap of
           None \<Rightarrow> ret None
         | Some nm \<Rightarrow>
             if isCanceled progress BeforeNormalMap then
               Some \<lparr>realDataOut = False, hfOut = Some (outHF st), normalMapOut = Some nm,
                     fetches = fetchLog st\<rparr>
             else
               (case deltaLOD st of
                  None \<Rightarrow> None
                | Some deltas \<Rightarrow>
                    (case createNormalMap nops key (outHF st) deltas nm of
                       None \<Rightarrow> None
                     | Some nm' \<Rightarrow> ret (Some nm'))))"

definition populateHeightFieldAndNormalMap ::
  "('e::plus, 'p, 'i) CompositeOps \<Rightarrow> ('d, 'e, 'n) NormalOps \<Rightarrow> 'e \<Rightarrow> 'e ElevationLayer list \<Rightarrow>
   'e HeightField option \<Rightarrow> 'n NormalMap option \<Rightarrow> TileKey \<Rightarrow> Profile option \<Rightarrow> 'i \<Rightarrow>
   ProgressCallback option \<Rightarrow> ('e, 'n) Composite option" where
  "populateHeightFieldAndNormalMap ops nops nd layers hfIn normalMap key haeProfile interpolation
     progress =
     (case hfIn of
        None \<Rightarrow> Some \<lparr>realDataOut = False, hfOut = None, normalMapOut = normalMap, fetches = []\<rparr>
      | Some h \<Rightarrow>
          (let keyToUse = (case haeProfile of None \<Rightarrow> key | Some p \<Rightarrow> key\<lparr>getProfile := p\<rparr>)
           in case collectLayers ops layers key keyToUse (getNumColumns h) of
                (contenders, offsets, numFallbackLayers) \<Rightarrow>
                  if contenders = [] \<and> offsets = [] then
                    Some \<lparr>realDataOut = False, hfOut = Some h, normalMapOut = normalMap, fetches = []\<rparr>
                  else if length contenders + length offsets = numFallbackLayers then
                    Some \<lparr>realDataOut = False, hfOut = Some h, normalMapOut = normalMap, fetches = []\<rparr>
                  else
                    (case copySingleContender ops contenders offsets
                            (initialSampling h (normalMap \<noteq> None) (length contenders)
                               (length offsets)) of
                       (requiresResample, st1) \<Rightarrow>
                         (case (if requiresResample
                                then sampleColumns ops nd key interpolation progress contenders
                                       offsets (getNumRows h) [0..<getNumColumns h] st1
                                else (False, st1)) of
                            (canceled, st2) \<Rightarrow>
                              if canceled then
                                Some \<lparr>realDataOut = False, hfOut = Some (outHF st2),
                                      normalMapOut = normalMap, fetches = fetchLog st2\<rparr>
                              else finishComposite ops nops key progress normalMap st2))))"

section \<open>Layers that qualify for a tile key\<close>

text \<open>
  A layer qualifies when the loop over the layers keeps it: it is enabled and visible,
  the LOD of the key is not below its minimum level, and it has a best available key
  for its resolution-mapped key. It supplies fallback data when that best available key
  is not the mapped key.
\<close>

definition qualifies ::
  "('e, 'p, 'i) CompositeOps \<Rightarrow> TileKey \<Rightarrow> TileKey \<Rightarrow> nat \<Rightarrow> 'e ElevationLayer \<Rightarrow> bool" where
  "qualifies ops key keyToUse numColumns layer =
     (getEnabled layer \<and> getVisible layer \<and> \<not> getLOD key < getMinLevel layer \<and>
      getBestAvailableTileKey layer (mapResolution ops keyToUse numColumns (getTileSize layer)) \<noteq> None)"

definition suppliesFallback ::
  "('e, 'p, 'i) CompositeOps \<Rightarrow> TileKey \<Rightarrow> nat \<Rightarrow> 'e ElevationLayer \<Rightarrow> bool" where
  "suppliesFallback ops keyToUse numColumns layer =
     (getBestAvailableTileKey layer (mapResolution ops keyToUse numColumns (getTileSize layer)) \<noteq>
      Some (mapResolution ops keyToUse numColumns (getTileSize layer)))"

section \<open>Concrete collaborators for the compositor\<close>

text \<open>
  \<^verbatim>\<open>createHeightField\<close> answers with the layer's source, \<^verbatim>\<open>getElevation\<close> reads the
  tile at the pixel itself, and the hole filling changes nothing.
\<close>

definition exGetElevation :: "int GeoHeightField \<Rightarrow> nat \<times> nat \<Rightarrow> unit \<Rightarrow> int option" where
  "exGetElevation g p i =
     (case getHeightField g of
        None \<Rightarrow> None
      | Some h \<Rightarrow>
          if fst p < getNumColumns h \<and> snd p < getNumRows h
          then Some (getHeight h (fst p) (snd p)) else None)"

definition exCOps :: "(int, nat \<times> nat, unit) CompositeOps" where
  "exCOps = \<lparr>layerCreateHeightField = (\<lambda>L k p. createHeightFieldImplementation L k),
             getElevation = exGetElevation, mapResolution = (\<lambda>k a b. k),
             samplePoint = (\<lambda>k w h c r. (c, r)), resolveInvalidHeights = (\<lambda>h. h)\<rparr>"

definition exNOps :: "(int, int, int \<times> int \<times> int) NormalOps" where
  "exNOps = \<lparr>spacingX = (\<lambda>k w h t. 1), spacingY = (\<lambda>k w h. 1), zeroD = 0, negD = uminus,
             vec3 = (\<lambda>x y z. (x, y, z)),
             vminus = (\<lambda>(a, b, c) (x, y, z). (a - x, b - y, c - z)),
             vplus = (\<lambda>(a, b, c) (x, y, z). (a + x, b + y, c + z)),
             vcross = (\<lambda>(a, b, c) (x, y, z). (b * z - c * y, c * x - a * z, a * y - b * x)),
             vscale = (\<lambda>(a, b, c) k. (a * k, b * k, c * k)),
             normalize = (\<lambda>v. v)\<rparr>"

definition exAncestorLayer :: "int ElevationLayer" where
  "exAncestorLayer = exLayer\<lparr>getBestAvailableTileKey := createParentKey\<rparr>"

section \<open>The step and the stored normal of a pixel\<close>

text \<open>
  \<open>pixelStep\<close> is \<open>2\<close> to the power of the LOD delta recorded for pixel \<open>(s, t)\<close>, the
  entry at \<open>t * numColumns + s\<close> where the compositor wrote it.
\<close>

definition pixelStep :: "16 word list \<Rightarrow> nat \<Rightarrow> nat \<Rightarrow> nat \<Rightarrow> int" where
  "pixelStep deltas numColumns s t = 2 ^ nat (sint (deltas ! (t * numColumns + s)))"

definition storedNormal ::
  "('d, 'e, 'n) NormalOps \<Rightarrow> TileKey \<Rightarrow> 'e HeightField \<Rightarrow> 16 word list \<Rightarrow> nat \<Rightarrow> nat \<Rightarrow> 'n" where
  "storedNormal nops extent hf deltas s t =
     normalize nops (interpolatedNormal nops extent hf
       (pixelStep deltas (getNumColumns hf) s t) (int s) (int t))"

section \<open>A concrete grid for normal synthesis\<close>




section \<open>Properties\<close>

lemma isCanceled_None: "isCanceled None cp = False"
  by (simp add: isCanceled_def)

subsection \<open>What the steps of the resolver leave unchanged\<close>

lemma recordCall_fields [simp]:
  "memCache (recordCall c L) = memCache L"
  "cacheBin (recordCall c L) = cacheBin L"
  "cachePolicy (recordCall c L) = cachePolicy L"
  "layerProfile (recordCall c L) = layerProfile L"
  "getRevision (recordCall c L) = getRevision L"
  "statusIsError (recordCall c L) = statusIsError L"
  "getEnabled (recordCall c L) = getEnabled L"
  "isKeyInLegalRange (recordCall c L) = isKeyInLegalRange L"
  "calls (recordCall c L) = calls L @ [c]"
  by (simp_all add: recordCall_def)

lemma readCacheBin_fields [simp]:
  "memCache (snd (readCacheBin L key)) = memCache L"
  "cacheBin (snd (readCacheBin L key)) = cacheBin L"
  "cachePolicy (snd (readCacheBin L key)) = cachePolicy L"
  "layerProfile (snd (readCacheBin L key)) = layerProfile L"
  "getRevision (snd (readCacheBin L key)) = getRevision L"
  by (simp_all add: readCacheBin_def Let_def split: option.splits)

lemma createFresh_fields [simp]:
  "memCache (snd (createFresh nd ops L lp key progress)) = memCache L"
  "cacheBin (snd (createFresh nd ops L lp key progress)) = cacheBin L"
  "cachePolicy (snd (createFresh nd ops L lp key progress)) = cachePolicy L"
  "getRevision (snd (createFresh nd ops L lp key progress)) = getRevision L"
  by (simp_all add: createFresh_def)

lemma cacheBinWrite_fields [simp]:
  "memCache (cacheBinWrite key h L) = memCache L"
  "getRevision (cacheBinWrite key h L) = getRevision L"
  by (simp_all add: cacheBinWrite_def split: option.splits)

lemma cacheFresh_fields [simp]:
  "memCache (cacheFresh L key hf fromCache) = memCache L"
  "getRevision (cacheFresh L key hf fromCache) = getRevision L"
  by (simp_all add: cacheFresh_def split: option.splits)

lemma createFresh_eqD:
  "createFresh nd ops L lp key progress = (a, b) \<Longrightarrow>
   memCache b = memCache L \<and> cacheBin b = cacheBin L \<and> cachePolicy b = cachePolicy L \<and>
   getRevision b = getRevision L"
  by (auto simp: createFresh_def split: if_splits)

lemma createAndCache_memCache [simp]:
  "memCache (snd (createAndCache nd ops L key progress cachedHF fromCache)) = memCache L"
  by (auto simp: createAndCache_def Let_def split: option.splits prod.splits dest: createFresh_eqD)

lemma createAndCache_revision [simp]:
  "getRevision (snd (createAndCache nd ops L key progress cachedHF fromCache)) = getRevision L"
  by (auto simp: createAndCache_def Let_def split: option.splits prod.splits dest: createFresh_eqD)

lemma createAndCache_canceled:
  assumes "isCanceled progress BeforeCacheWrite"
  shows "cacheBin (snd (createAndCache nd ops L key progress cachedHF fromCache)) = cacheBin L"
    and "fst (createAndCache nd ops L key progress cachedHF fromCache) = None"
  using assms
  by (auto simp: createAndCache_def split: option.splits prod.splits dest: createFresh_eqD)

lemma returnResult_canceled:
  "isCanceled progress BeforeMemCacheWrite \<Longrightarrow> returnResult L key progress g b = (INVALID, L)"
  by (simp add: returnResult_def)

lemma readCacheBin_eqD:
  "readCacheBin L key = (x, Lb) \<Longrightarrow>
   memCache Lb = memCache L \<and> cacheBin Lb = cacheBin L \<and> cachePolicy Lb = cachePolicy L \<and>
   layerProfile Lb = layerProfile L \<and> getRevision Lb = getRevision L"
  using readCacheBin_fields[of L key] by simp

lemma createAndCache_eqD:
  "createAndCache nd ops L key progress cachedHF fromCache = (x, Lc) \<Longrightarrow>
   memCache Lc = memCache L \<and> getRevision Lc = getRevision L"
  using createAndCache_memCache[of nd ops L key progress cachedHF fromCache]
        createAndCache_revision[of nd ops L key progress cachedHF fromCache] by simp

lemma fromMainCache_canceled:
  assumes "isCanceled progress BeforeMemCacheWrite"
  shows "fst (fromMainCache nd ops L key progress) = INVALID"
    and "memCache (snd (fromMainCache nd ops L key progress)) = memCache L"
  using assms
  by (auto simp: fromMainCache_def returnResult_canceled disable_def
      split: option.splits prod.splits
      dest!: readCacheBin_eqD createAndCache_eqD)

lemma fromMainCache_canceled_bin:
  assumes "isCanceled progress BeforeMemCacheWrite" "isCanceled progress BeforeCacheWrite"
  shows "cacheBin (snd (fromMainCache nd ops L key progress)) = cacheBin L"
proof -
  obtain hf cachedHF fromCache Lb where r: "readCacheBin L key = ((hf, cachedHF, fromCache), Lb)"
    by (metis prod_cases3 surj_pair)
  have Lb: "cacheBin Lb = cacheBin L"
    using readCacheBin_fields(2)[of L key] r by simp
  obtain x Lc where c: "createAndCache nd ops Lb key progress cachedHF fromCache = (x, Lc)"
    by fastforce
  have Lc: "cacheBin Lc = cacheBin Lb"
    using createAndCache_canceled(1)[OF assms(2), of nd ops Lb key cachedHF fromCache] c by simp
  show ?thesis
    using assms(1) r c Lb Lc
    by (auto simp: fromMainCache_def returnResult_canceled disable_def split: option.splits)
qed

lemmas ex_defs = exProfile_def exKey_def exGrid_def exOldGrid_def exOps_def exPolicy_def
  exLayer_def cancelLate_def cancelAlways_def binAt_def memAt_def

lemmas resolver_defs = createHeightField_def createHeightFieldInKeyProfile_def fromMainCache_def
  returnResult_def createAndCache_def createFresh_def readCacheBin_def processFresh_def
  validatedFresh_def toKeyDatum_def normalizeNoDataValues_def cacheFresh_def orCached_def
  cacheBinWrite_def memCacheWrite_def recordCall_def makeCacheKey_def makeMemCacheKey_def
  key_str_def validateHeightField_def isCanceled_def GeoHF_def INVALID_def valid_def disable_def

subsection \<open>Cancellation and the cache tiers\<close>

text \<open>
  C6, as amended. A resolve call whose token is cancelled at the check before the
  memory-cache write returns INVALID and leaves the memory cache as it was; when the
  token was cancelled already at the check before the persistent-tier write, the
  persistent tier is left as it was too. (A token cancelled between the two checks
  finds the persistent tier written: see the counterexample.)
\<close>

theorem cancellation_leaves_caches:
  assumes "isCanceled progress BeforeMemCacheWrite"
  shows "fst (createHeightField nd ops L key progress) = INVALID \<and>
         memCache (snd (createHeightField nd ops L key progress)) = memCache L \<and>
         (isCanceled progress BeforeCacheWrite \<longrightarrow>
            cacheBin (snd (createHeightField nd ops L key progress)) = cacheBin L)"
  using assms
  by (simp add: createHeightField_def createHeightFieldInKeyProfile_def
        returnResult_canceled fromMainCache_canceled fromMainCache_canceled_bin
        split: option.splits)

theorem cancellation_leaves_caches_witness:
  "isCanceled (Some cancelAlways) BeforeMemCacheWrite \<and>
   isCanceled (Some cancelAlways) BeforeCacheWrite \<and>
   fst (createHeightField (- 1000) exOps exLayer exKey (Some cancelAlways)) = INVALID \<and>
   memAt (snd (createHeightField (- 1000) exOps exLayer exKey (Some cancelAlways))) exKey = None \<and>
   binAt (snd (createHeightField (- 1000) exOps exLayer exKey (Some cancelAlways))) exKey = None"
  using cancellation_leaves_caches [of "Some cancelAlways" "- 1000" exOps exLayer exKey]
  by (simp add: ex_defs resolver_defs)

text \<open>
  C6 as stated fails: with a token that is not cancelled at the check before the
  persistent-tier write and is cancelled at the check before the memory-cache write, the
  call returns INVALID, and the persistent tier, empty before, holds the new grid.
\<close>

theorem cancellation_after_persistent_write_counterexample:
  "isCanceled (Some cancelLate) BeforeMemCacheWrite \<and>
   fst (createHeightField (- 1000) exOps exLayer exKey (Some cancelLate)) = INVALID \<and>
   binAt exLayer exKey = None \<and>
   binAt (snd (createHeightField (- 1000) exOps exLayer exKey (Some cancelLate))) exKey =
     Some \<lparr>cachedObject = Some exGrid, lastModifiedTime = 10\<rparr>"
  by (simp add: ex_defs resolver_defs)

subsection \<open>The expired persistent grid is the last resort\<close>

lemma walk_calls [simp]:
  "walkIntersectionLOD (L\<lparr>calls := cs\<rparr>) key n = walkIntersectionLOD L key n"
  by (induction n) (simp_all add: Let_def)

lemma intersectingTiles_calls [simp]:
  "intersectingTiles (L\<lparr>calls := cs\<rparr>) key = intersectingTiles L key"
  by (simp add: intersectingTiles_def)

lemma collectHeightFields_calls [simp]:
  "collectHeightFields (L\<lparr>calls := cs\<rparr>) tiles = collectHeightFields L tiles"
  by (simp add: collectHeightFields_def)

lemma assembleHeightField_calls [simp]:
  "assembleHeightField nd ops (L\<lparr>calls := cs\<rparr>) key progress = assembleHeightField nd ops L key progress"
  by (simp add: assembleHeightField_def)

lemma createFresh_calls [simp]:
  "fst (createFresh nd ops (L\<lparr>calls := cs\<rparr>) lp key progress) = fst (createFresh nd ops L lp key progress)"
  by (simp add: createFresh_def recordCall_def)

lemma processFresh_calls [simp]:
  "processFresh nd (L\<lparr>calls := cs\<rparr>) lp key hf = processFresh nd L lp key hf"
  by (simp add: processFresh_def normalizeNoDataValues_def toKeyDatum_def split: option.splits)

lemma rawFresh_calls [simp]:
  "rawFresh nd ops (L\<lparr>calls := cs\<rparr>) key progress = rawFresh nd ops L key progress"
  by (simp add: rawFresh_def split: option.splits)

lemma freshGrid_calls [simp]:
  "freshGrid nd ops (L\<lparr>calls := cs\<rparr>) key progress = freshGrid nd ops L key progress"
  by (simp add: freshGrid_def split: option.splits)

lemma cacheHit_calls [simp]: "cacheHit (L\<lparr>calls := cs\<rparr>) key = cacheHit L key"
  by (simp add: cacheHit_def binAt_def)

lemma recordCall_alt: "recordCall c L = L\<lparr>calls := calls L @ [c]\<rparr>"
  by (simp add: recordCall_def)

text \<open>The creation step, once the token is not cancelled and the key is legal.\<close>

lemma createAndCache_result:
  assumes "isKeyInLegalRange L key" "layerProfile L = Some lp"
    "\<not> isCanceled progress BeforeCacheWrite"
  shows "fst (createAndCache nd ops L key progress cachedHF fromCache) =
           orCached (freshGrid nd ops L key progress) cachedHF"
  using assms
  by (simp add: createAndCache_def freshGrid_def rawFresh_def Let_def split: prod.splits)

lemma createAndCache_layer:
  assumes "isKeyInLegalRange L key" "layerProfile L = Some lp"
    "\<not> isCanceled progress BeforeCacheWrite"
  shows "snd (createAndCache nd ops L key progress cachedHF fromCache) =
           cacheFresh (snd (createFresh nd ops L lp key progress)) key
             (freshGrid nd ops L key progress) fromCache"
  using assms
  by (simp add: createAndCache_def freshGrid_def rawFresh_def Let_def split: prod.splits)


lemma readCacheBin_hit:
  assumes "cacheHit L key = Some r" "cachedObject r = Some h" "validateHeightField (Some h)"
  shows "readCacheBin L key =
           ((if \<not> isExpired (cachePolicy L) (lastModifiedTime r) then (Some h, Some h, True)
             else (None, Some h, False)), recordCall CacheBinRead L)"
  using assms
  by (auto simp: readCacheBin_def cacheHit_def binAt_def Let_def split: option.splits if_splits)

lemma returnResult_valid:
  assumes "\<not> isCanceled progress BeforeMemCacheWrite"
  shows "fst (returnResult L key progress (GeoHF (Some h) key) b) = GeoHF (Some h) key"
  using assms by (simp add: returnResult_def GeoHF_def)

lemma returnResult_calls:
  "sourceCreates (snd (returnResult L key progress g b)) = sourceCreates L"
  by (simp add: returnResult_def sourceCreates_def memCacheWrite_def recordCall_def
      split: option.splits)

lemma returnResult_binAt:
  "binAt (snd (returnResult L key progress g b)) key' = binAt L key'"
  by (simp add: returnResult_def binAt_def memCacheWrite_def recordCall_def split: option.splits)

lemma sourceCreates_recordCall [simp]:
  "sourceCreates (recordCall MemCacheRead L) = sourceCreates L"
  "sourceCreates (recordCall CacheBinRead L) = sourceCreates L"
  by (simp_all add: sourceCreates_def recordCall_def)

lemma fromMainCache_fresh_hit:
  assumes "layerProfile L = Some lp" "\<not> isCanceled progress BeforeMemCacheWrite"
    "cacheHit L key = Some r" "cachedObject r = Some h" "validateHeightField (Some h)"
    "\<not> isExpired (cachePolicy L) (lastModifiedTime r)"
  shows "fst (fromMainCache nd ops L key progress) = GeoHF (Some h) key"
    and "sourceCreates (snd (fromMainCache nd ops L key progress)) = sourceCreates L"
  using assms
  by (simp_all add: fromMainCache_def readCacheBin_hit returnResult_valid returnResult_calls)

lemma cacheFresh_binAt:
  assumes "cacheBin L \<noteq> None" "isCacheWriteable (cachePolicy L)"
  shows "binAt (cacheFresh L key (Some f) False) key =
           Some \<lparr>cachedObject = Some f, lastModifiedTime = clock L\<rparr>"
  using assms
  by (auto simp: cacheFresh_def cacheBinWrite_def binAt_def recordCall_def)

lemma createFresh_snd_fields [simp]:
  "clock (snd (createFresh nd ops L lp key progress)) = clock L"
  by (simp add: createFresh_def recordCall_def)

lemma fromMainCache_expired_hit:
  assumes "layerProfile L = Some lp" "\<not> isCanceled progress BeforeMemCacheWrite"
    "\<not> isCanceled progress BeforeCacheWrite"
    "cacheHit L key = Some r" "cachedObject r = Some h" "validateHeightField (Some h)"
    "isExpired (cachePolicy L) (lastModifiedTime r)"
    "\<not> isCacheOnly (cachePolicy L)" "isKeyInLegalRange L key"
  shows "fst (fromMainCache nd ops L key progress) =
           (case freshGrid nd ops L key progress of
              Some f \<Rightarrow> GeoHF (Some f) key
            | None \<Rightarrow> GeoHF (Some h) key)"
    and "freshGrid nd ops L key progress = Some f \<Longrightarrow> isCacheWriteable (cachePolicy L) \<Longrightarrow>
         binAt (snd (fromMainCache nd ops L key progress)) key =
           Some \<lparr>cachedObject = Some f, lastModifiedTime = clock L\<rparr>"
proof -
  let ?Lb = "recordCall CacheBinRead L"
  have bin: "cacheBin L \<noteq> None"
    using assms(4) by (auto simp: cacheHit_def binAt_def split: if_splits option.splits)
  have r: "readCacheBin L key = ((None, Some h, False), ?Lb)"
    using assms by (simp add: readCacheBin_hit)
  have legal: "isKeyInLegalRange ?Lb key" "layerProfile ?Lb = Some lp"
    using assms by simp_all
  have fg: "freshGrid nd ops ?Lb key progress = freshGrid nd ops L key progress"
    by (simp add: recordCall_alt)
  have res: "fst (createAndCache nd ops ?Lb key progress (Some h) False) =
        orCached (freshGrid nd ops L key progress) (Some h)"
    using createAndCache_result[OF legal assms(3), of nd ops] fg by simp
  have lay: "snd (createAndCache nd ops ?Lb key progress (Some h) False) =
        cacheFresh (snd (createFresh nd ops ?Lb lp key progress)) key
             (freshGrid nd ops L key progress) False"
    using createAndCache_layer[OF legal assms(3), of nd ops] fg by simp
  show "fst (fromMainCache nd ops L key progress) =
           (case freshGrid nd ops L key progress of
              Some f \<Rightarrow> GeoHF (Some f) key
            | None \<Rightarrow> GeoHF (Some h) key)"
    using assms(1,2,8) r res
    by (cases "createAndCache nd ops ?Lb key progress (Some h) False")
       (auto simp: fromMainCache_def orCached_def returnResult_valid split: option.splits)
  show "binAt (snd (fromMainCache nd ops L key progress)) key =
           Some \<lparr>cachedObject = Some f, lastModifiedTime = clock L\<rparr>"
    if "freshGrid nd ops L key progress = Some f" "isCacheWriteable (cachePolicy L)"
  proof -
    have "binAt (snd (createAndCache nd ops ?Lb key progress (Some h) False)) key =
        Some \<lparr>cachedObject = Some f, lastModifiedTime = clock L\<rparr>"
      using lay that bin cacheFresh_binAt[of "snd (createFresh nd ops ?Lb lp key progress)" key f]
      by (simp add: recordCall_def)
    then show ?thesis
      using assms(1,2,8) r res that
      by (cases "createAndCache nd ops ?Lb key progress (Some h) False")
         (auto simp: fromMainCache_def orCached_def returnResult_binAt split: option.splits)
  qed
qed










lemmas ex2_defs = exBadGrid_def exStaleEntry_def exStaleLayer_def exStaleBrokenLayer_def
   cacheHit_def freshGrid_def rawFresh_def sourceCreates_def



subsection \<open>The memory cache keeps an expired grid\<close>

lemma memAt_memCacheWrite:
  "memCache L \<noteq> None \<Longrightarrow> memAt (memCacheWrite key h L) key = Some h"
  by (auto simp: memAt_def memCacheWrite_def recordCall_def makeMemCacheKey_def)

lemma memCacheWrite_flags [simp]:
  "statusIsError (memCacheWrite key h L) = statusIsError L"
  "getEnabled (memCacheWrite key h L) = getEnabled L"
  "getRevision (memCacheWrite key h L) = getRevision L"
  by (simp_all add: memCacheWrite_def recordCall_def split: option.splits)

lemma returnResult_pins:
  assumes "\<not> isCanceled progress BeforeMemCacheWrite" "memCache L \<noteq> None"
  shows "memAt (snd (returnResult L key progress (GeoHF (Some h) key) False)) key = Some h"
    and "statusIsError (snd (returnResult L key progress (GeoHF (Some h) key) False)) = statusIsError L"
    and "getEnabled (snd (returnResult L key progress (GeoHF (Some h) key) False)) = getEnabled L"
    and "getRevision (snd (returnResult L key progress (GeoHF (Some h) key) False)) = getRevision L"
  using assms
  by (simp_all add: returnResult_def GeoHF_def valid_def memAt_memCacheWrite)

lemma readCacheBin_flags [simp]:
  "statusIsError (snd (readCacheBin L key)) = statusIsError L"
  "getEnabled (snd (readCacheBin L key)) = getEnabled L"
  by (simp_all add: readCacheBin_def Let_def recordCall_def split: option.splits)

lemma cacheFresh_flags [simp]:
  "statusIsError (cacheFresh L key hf b) = statusIsError L"
  "getEnabled (cacheFresh L key hf b) = getEnabled L"
  by (simp_all add: cacheFresh_def cacheBinWrite_def recordCall_def split: option.splits)

lemma createFresh_flags [simp]:
  "statusIsError (snd (createFresh nd ops L lp key progress)) = statusIsError L"
  "getEnabled (snd (createFresh nd ops L lp key progress)) = getEnabled L"
  by (simp_all add: createFresh_def recordCall_def)

lemma createFresh_flagsD:
  "createFresh nd ops L lp key progress = (a, b) \<Longrightarrow>
   statusIsError b = statusIsError L \<and> getEnabled b = getEnabled L"
  using createFresh_flags[of nd ops L lp key progress] by simp

lemma createAndCache_flags [simp]:
  "statusIsError (snd (createAndCache nd ops L key progress c b)) = statusIsError L"
  "getEnabled (snd (createAndCache nd ops L key progress c b)) = getEnabled L"
  by (auto simp: createAndCache_def Let_def split: option.splits prod.splits dest: createFresh_flagsD)

lemma createAndCache_flagsD:
  "createAndCache nd ops L key progress c b = (x, Lc) \<Longrightarrow>
   statusIsError Lc = statusIsError L \<and> getEnabled Lc = getEnabled L \<and>
   memCache Lc = memCache L \<and> getRevision Lc = getRevision L"
  using createAndCache_flags[of nd ops L key progress c b]
    createAndCache_memCache[of nd ops L key progress c b]
    createAndCache_revision[of nd ops L key progress c b] by simp

lemma readCacheBin_flagsD:
  "readCacheBin L key = (x, Lb) \<Longrightarrow>
   statusIsError Lb = statusIsError L \<and> getEnabled Lb = getEnabled L \<and>
   memCache Lb = memCache L \<and> getRevision Lb = getRevision L"
  using readCacheBin_flags[of L key] readCacheBin_fields[of L key] by simp

text \<open>Whatever valid grid the persistent-tier path returns is in the memory cache afterwards.\<close>

lemma memAt_cong:
  "memCache L' = memCache L \<Longrightarrow> getRevision L' = getRevision L \<Longrightarrow> memAt L' key = memAt L key"
  by (simp add: memAt_def makeMemCacheKey_def split: option.splits)

lemma fromMainCache_pins:
  assumes nc: "\<not> isCanceled progress BeforeMemCacheWrite"
    and mc: "memCache L \<noteq> None"
    and res: "fst (fromMainCache nd ops L key progress) = GeoHF (Some h) key"
  shows "memAt (snd (fromMainCache nd ops L key progress)) key = Some h \<and>
         statusIsError (snd (fromMainCache nd ops L key progress)) = statusIsError L \<and>
         getEnabled (snd (fromMainCache nd ops L key progress)) = getEnabled L \<and>
         getRevision (snd (fromMainCache nd ops L key progress)) = getRevision L"
proof -
  obtain hf cachedHF fromCache Lb where r: "readCacheBin L key = ((hf, cachedHF, fromCache), Lb)"
    by (metis prod_cases3 surj_pair)
  obtain x Lc where c: "createAndCache nd ops Lb key progress cachedHF fromCache = (x, Lc)"
    by fastforce
  note Lb = readCacheBin_flagsD[OF r]
  note Lc = createAndCache_flagsD[OF c]
  have inv: "INVALID \<noteq> GeoHF (Some h) key"
    by (simp add: INVALID_def GeoHF_def)
  have g: "GeoHF (Some h') key = GeoHF (Some h) key \<Longrightarrow> h' = h" for h'
    by (simp add: GeoHF_def)
  show ?thesis
  proof (cases hf)
    case None
    then have x: "x = Some h"
      using res r c nc inv g
      by (auto simp: fromMainCache_def returnResult_valid split: if_splits option.splits)
    have "snd (fromMainCache nd ops L key progress) =
            snd (returnResult Lc key progress (GeoHF (Some h) key) False)"
      using res r c None x inv by (auto simp: fromMainCache_def split: if_splits)
    then show ?thesis
      using returnResult_pins[OF nc, of Lc key h] mc Lb Lc by simp
  next
    case (Some h')
    then have h': "h' = h"
      using res r nc inv g
      by (auto simp: fromMainCache_def returnResult_valid split: if_splits)
    have "snd (fromMainCache nd ops L key progress) =
            snd (returnResult Lb key progress (GeoHF (Some h) key) False)"
      using res r Some h' inv by (auto simp: fromMainCache_def split: if_splits)
    then show ?thesis
      using returnResult_pins[OF nc, of Lb key h] mc Lb by simp
  qed
qed

text \<open>A call that finds the grid in the memory cache does nothing but read it.\<close>

lemma memory_hit:
  assumes "memPinned L key h"
  shows "snd (createHeightField nd ops L key progress) = recordCall MemCacheRead L"
    and "fst (createHeightField nd ops L key progress) =
           (if isCanceled progress BeforeMemCacheWrite then INVALID else GeoHF (Some h) key)"
  using assms
  by (auto simp: memPinned_def memAt_def createHeightField_def createHeightFieldInKeyProfile_def
      returnResult_def GeoHF_def split: option.splits)

lemma memPinned_recordCall: "memPinned (recordCall c L) key h = memPinned L key h"
  by (simp add: memPinned_def memAt_def makeMemCacheKey_def recordCall_def split: option.splits)


lemma returnResult_writes:
  assumes "\<not> isCanceled progress BeforeMemCacheWrite" "memCache L = Some m"
  shows "memCache (snd (returnResult L key progress (GeoHF (Some h) key) False)) =
           Some (m(makeMemCacheKey L key \<mapsto> h))"
  using assms
  by (simp add: returnResult_def GeoHF_def valid_def memCacheWrite_def recordCall_def)

lemma makeMemCacheKey_cong:
  "getRevision L' = getRevision L \<Longrightarrow> makeMemCacheKey L' key = makeMemCacheKey L key"
  by (simp add: makeMemCacheKey_def)

text \<open>The write-through of the persistent-tier path changes the memory cache at one slot.\<close>

lemma fromMainCache_writes_through:
  assumes nc: "\<not> isCanceled progress BeforeMemCacheWrite"
    and mc: "memCache L = Some m"
    and res: "fst (fromMainCache nd ops L key progress) = GeoHF (Some h) key"
  shows "memCache (snd (fromMainCache nd ops L key progress)) =
           Some (m(makeMemCacheKey L key \<mapsto> h))"
proof -
  obtain hf cachedHF fromCache Lb where r: "readCacheBin L key = ((hf, cachedHF, fromCache), Lb)"
    by (metis prod_cases3 surj_pair)
  obtain x Lc where c: "createAndCache nd ops Lb key progress cachedHF fromCache = (x, Lc)"
    by fastforce
  note Lb = readCacheBin_flagsD[OF r]
  note Lc = createAndCache_flagsD[OF c]
  have inv: "INVALID \<noteq> GeoHF (Some h) key"
    by (simp add: INVALID_def GeoHF_def)
  have g: "GeoHF (Some h') key = GeoHF (Some h) key \<Longrightarrow> h' = h" for h'
    by (simp add: GeoHF_def)
  show ?thesis
  proof (cases hf)
    case None
    then have x: "x = Some h"
      using res r c nc inv g
      by (auto simp: fromMainCache_def returnResult_valid split: if_splits option.splits)
    have e: "snd (fromMainCache nd ops L key progress) =
            snd (returnResult Lc key progress (GeoHF (Some h) key) False)"
      using res r c None x inv by (auto simp: fromMainCache_def split: if_splits)
    have "memCache Lc = Some m" "makeMemCacheKey Lc key = makeMemCacheKey L key"
      using mc Lb Lc by (simp_all add: makeMemCacheKey_def)
    then show ?thesis
      using returnResult_writes[OF nc, of Lc m key h] e by simp
  next
    case (Some h')
    then have h': "h' = h"
      using res r nc inv g
      by (auto simp: fromMainCache_def returnResult_valid split: if_splits)
    have e: "snd (fromMainCache nd ops L key progress) =
            snd (returnResult Lb key progress (GeoHF (Some h) key) False)"
      using res r Some h' inv by (auto simp: fromMainCache_def split: if_splits)
    have "memCache Lb = Some m" "makeMemCacheKey Lb key = makeMemCacheKey L key"
      using mc Lb by (simp_all add: makeMemCacheKey_def)
    then show ?thesis
      using returnResult_writes[OF nc, of Lb m key h] e by simp
  qed
qed

text \<open>A call that finds nothing in the memory cache goes on to the persistent tier.\<close>

lemma memory_miss:
  assumes "\<not> statusIsError L" "getEnabled L" "memCache L = Some m" "m (makeMemCacheKey L key) = None"
  shows "createHeightField nd ops L key progress =
           fromMainCache nd ops (recordCall MemCacheRead L) key progress"
  using assms by (simp add: createHeightField_def createHeightFieldInKeyProfile_def)

text \<open>
  C10. The slot of a tile key in the memory cache of a layer is the triple of the
  layer's revision, the key's \<open>(lod, x, y)\<close> and the signature of the key's profile. Let
  a resolve call on an enabled layer with a memory cache \<open>m\<close> find nothing at the slot,
  find an expired grid \<open>h\<close> that validates in the persistent tier, get no fresh grid,
  and not be cancelled. Then the call returns \<open>h\<close>, and its memory cache is \<open>m\<close>
  with \<open>h\<close> written at that slot, the revision unchanged. From any state of an enabled
  layer whose memory cache holds \<open>h\<close> at the slot of the key for the layer's revision,
  a resolve of the key only reads the memory cache: the layer changes by the record of
  that read alone (no read of the persistent tier, no call of the source, no write), and
  the result is \<open>h\<close> unless that call is cancelled. A layer whose memory cache holds
  nothing at the slot for its own revision gets no such answer: its call goes on to the
  persistent tier.
\<close>

theorem expired_grid_pinned_in_memory_cache:
  assumes en: "\<not> statusIsError L" "getEnabled L"
    and mem: "memCache L = Some m"
      "m (getRevision L, (getLOD key, getTileX key, getTileY key),
          horizSignature (getProfile key)) = None"
    and lp: "layerProfile L = Some lp"
    and nc: "\<not> isCanceled progress BeforeCacheWrite" "\<not> isCanceled progress BeforeMemCacheWrite"
    and hit: "cacheHit L key = Some r" "cachedObject r = Some h" "validateHeightField (Some h)"
    and expired: "isExpired (cachePolicy L) (lastModifiedTime r)"
    and create: "\<not> isCacheOnly (cachePolicy L)" "isKeyInLegalRange L key"
    and nofresh: "freshGrid nd ops L key progress = None"
  shows "fst (createHeightField nd ops L key progress) = GeoHF (Some h) key \<and>
         memCache (snd (createHeightField nd ops L key progress)) =
           Some (m((getRevision L, (getLOD key, getTileX key, getTileY key),
                    horizSignature (getProfile key)) \<mapsto> h)) \<and>
         getRevision (snd (createHeightField nd ops L key progress)) = getRevision L \<and>
         (\<forall>L2 m2 progress2.
            \<not> statusIsError L2 \<and> getEnabled L2 \<and> memCache L2 = Some m2 \<and>
            m2 (getRevision L2, (getLOD key, getTileX key, getTileY key),
                horizSignature (getProfile key)) = Some h \<longrightarrow>
            snd (createHeightField nd ops L2 key progress2) = recordCall MemCacheRead L2 \<and>
            fst (createHeightField nd ops L2 key progress2) =
              (if isCanceled progress2 BeforeMemCacheWrite then INVALID else GeoHF (Some h) key)) \<and>
         (\<forall>L2 m2 progress2.
            \<not> statusIsError L2 \<and> getEnabled L2 \<and> memCache L2 = Some m2 \<and>
            m2 (getRevision L2, (getLOD key, getTileX key, getTileY key),
                horizSignature (getProfile key)) = None \<longrightarrow>
            createHeightField nd ops L2 key progress2 =
              fromMainCache nd ops (recordCall MemCacheRead L2) key progress2)"
proof -
  let ?M = "recordCall MemCacheRead L"
  have slot: "makeMemCacheKey L' key =
      (getRevision L', (getLOD key, getTileX key, getTileY key), horizSignature (getProfile key))"
    for L' :: "'a ElevationLayer"
    by (simp add: makeMemCacheKey_def key_str_def)
  have c: "createHeightField nd ops L key progress = fromMainCache nd ops ?M key progress"
    using memory_miss[OF en mem(1), of key nd ops progress] mem(2) by (simp add: slot)
  have M: "layerProfile ?M = Some lp" "cacheHit ?M key = Some r"
    "isExpired (cachePolicy ?M) (lastModifiedTime r)" "\<not> isCacheOnly (cachePolicy ?M)"
    "isKeyInLegalRange ?M key" "freshGrid nd ops ?M key progress = None" "memCache ?M = Some m"
    "memCache ?M \<noteq> None" "getRevision ?M = getRevision L"
    using lp hit(1) expired create nofresh mem(1) by (simp_all add: recordCall_alt)
  have res: "fst (fromMainCache nd ops ?M key progress) = GeoHF (Some h) key"
    using fromMainCache_expired_hit(1)[OF M(1) nc(2) nc(1) M(2) hit(2,3) M(3,4,5), of nd ops] M(6)
    by simp
  have wr: "memCache (snd (fromMainCache nd ops ?M key progress)) =
      Some (m((getRevision L, (getLOD key, getTileX key, getTileY key),
               horizSignature (getProfile key)) \<mapsto> h))"
    using fromMainCache_writes_through[OF nc(2) M(7) res] M(9) by (simp add: slot)
  have rev: "getRevision (snd (fromMainCache nd ops ?M key progress)) = getRevision L"
    using fromMainCache_pins[OF nc(2) M(8) res] M(9) by simp
  have later: "snd (createHeightField nd ops L2 key progress2) = recordCall MemCacheRead L2 \<and>
            fst (createHeightField nd ops L2 key progress2) =
              (if isCanceled progress2 BeforeMemCacheWrite then INVALID else GeoHF (Some h) key)"
    if "\<not> statusIsError L2" "getEnabled L2" "memCache L2 = Some m2"
      "m2 (getRevision L2, (getLOD key, getTileX key, getTileY key),
           horizSignature (getProfile key)) = Some h"
    for L2 m2 progress2
  proof -
    have "memPinned L2 key h"
      using that by (simp add: memPinned_def memAt_def slot)
    from memory_hit[OF this, of nd ops progress2] show ?thesis by simp
  qed
  have other: "createHeightField nd ops L2 key progress2 =
              fromMainCache nd ops (recordCall MemCacheRead L2) key progress2"
    if "\<not> statusIsError L2" "getEnabled L2" "memCache L2 = Some m2"
      "m2 (getRevision L2, (getLOD key, getTileX key, getTileY key),
           horizSignature (getProfile key)) = None"
    for L2 m2 progress2
    using memory_miss[OF that(1,2,3), of key nd ops progress2] that(4) by (simp add: slot)
  have A: "fst (createHeightField nd ops L key progress) = GeoHF (Some h) key"
    using res by (simp add: c)
  have B: "memCache (snd (createHeightField nd ops L key progress)) =
           Some (m((getRevision L, (getLOD key, getTileX key, getTileY key),
                    horizSignature (getProfile key)) \<mapsto> h))"
    using wr by (simp add: c)
  have C: "getRevision (snd (createHeightField nd ops L key progress)) = getRevision L"
    using rev by (simp add: c)
  show ?thesis
    using A B C later other by blast
qed

text \<open>
  The layer of the example has revision 7 and the key is \<open>(3, 2, 5)\<close> in a profile of
  signature 1. After the call that falls back on the expired grid, the grid is at the
  slot \<open>(7, (3, 2, 5), 1)\<close>, the next call reads it from there, and the same layer at
  revision 8 finds nothing at its slot.
\<close>

theorem expired_grid_pinned_in_memory_cache_witness:
  "memCache exStaleBrokenLayer = Some (\<lambda>k. None) \<and>
   cacheHit exStaleBrokenLayer exKey = Some exStaleEntry \<and>
   isExpired (cachePolicy exStaleBrokenLayer) (lastModifiedTime exStaleEntry) \<and>
   freshGrid (- 1000) exOps exStaleBrokenLayer exKey None = None \<and>
   fst (createHeightField (- 1000) exOps exStaleBrokenLayer exKey None) = GeoHF (Some exOldGrid) exKey \<and>
   memCache (snd (createHeightField (- 1000) exOps exStaleBrokenLayer exKey None)) =
     Some ((\<lambda>k. None)((7, (3, 2, 5), 1) \<mapsto> exOldGrid)) \<and>
   fst (createHeightField (- 1000) exOps
          (snd (createHeightField (- 1000) exOps exStaleBrokenLayer exKey None)) exKey None) =
     GeoHF (Some exOldGrid) exKey \<and>
   snd (createHeightField (- 1000) exOps
          (snd (createHeightField (- 1000) exOps exStaleBrokenLayer exKey None)) exKey None) =
     recordCall MemCacheRead (snd (createHeightField (- 1000) exOps exStaleBrokenLayer exKey None)) \<and>
   createHeightField (- 1000) exOps
          ((snd (createHeightField (- 1000) exOps exStaleBrokenLayer exKey None))\<lparr>getRevision := 8\<rparr>)
          exKey None =
     fromMainCache (- 1000) exOps
          (recordCall MemCacheRead
             ((snd (createHeightField (- 1000) exOps exStaleBrokenLayer exKey None))\<lparr>getRevision := 8\<rparr>))
          exKey None"
proof -
  let ?L1 = "snd (createHeightField (- 1000) exOps exStaleBrokenLayer exKey None)"
  let ?slot = "\<lambda>L :: int ElevationLayer. (getRevision L, (getLOD exKey, getTileX exKey, getTileY exKey),
      horizSignature (getProfile exKey))"
  have h: "\<not> statusIsError exStaleBrokenLayer" "getEnabled exStaleBrokenLayer"
    "memCache exStaleBrokenLayer = Some (\<lambda>k. None)"
    "(\<lambda>k. None) (?slot exStaleBrokenLayer) = (None :: int HeightField option)"
    "layerProfile exStaleBrokenLayer = Some exProfile"
    "\<not> isCanceled None BeforeCacheWrite" "\<not> isCanceled None BeforeMemCacheWrite"
    "cacheHit exStaleBrokenLayer exKey = Some exStaleEntry"
    "cachedObject exStaleEntry = Some exOldGrid" "validateHeightField (Some exOldGrid)"
    "isExpired (cachePolicy exStaleBrokenLayer) (lastModifiedTime exStaleEntry)"
    "\<not> isCacheOnly (cachePolicy exStaleBrokenLayer)" "isKeyInLegalRange exStaleBrokenLayer exKey"
    by (simp_all add: ex_defs ex2_defs isCanceled_def validateHeightField_def makeCacheKey_def
        key_str_def binAt_def)
  have f: "freshGrid (- 1000) exOps exStaleBrokenLayer exKey None = None"
    by (simp add: ex_defs ex2_defs createFresh_def processFresh_def validatedFresh_def
        validateHeightField_def toKeyDatum_def normalizeNoDataValues_def GeoHF_def)
  have sl: "?slot exStaleBrokenLayer = (7, (3, 2, 5), 1)"
    by (simp add: ex_defs ex2_defs)
  note t = expired_grid_pinned_in_memory_cache [OF h f]
  from t have first: "fst (createHeightField (- 1000) exOps exStaleBrokenLayer exKey None) =
      GeoHF (Some exOldGrid) exKey"
    and wr: "memCache ?L1 = Some ((\<lambda>k. None)(?slot exStaleBrokenLayer \<mapsto> exOldGrid))"
    and rev: "getRevision ?L1 = getRevision exStaleBrokenLayer"
    and later: "\<And>L2 m2 progress2. \<not> statusIsError L2 \<Longrightarrow> getEnabled L2 \<Longrightarrow> memCache L2 = Some m2 \<Longrightarrow>
       m2 (?slot L2) = Some exOldGrid \<Longrightarrow>
       snd (createHeightField (- 1000) exOps L2 exKey progress2) = recordCall MemCacheRead L2 \<and>
       fst (createHeightField (- 1000) exOps L2 exKey progress2) =
         (if isCanceled progress2 BeforeMemCacheWrite then INVALID else GeoHF (Some exOldGrid) exKey)"
    and other: "\<And>L2 m2 progress2. \<not> statusIsError L2 \<Longrightarrow> getEnabled L2 \<Longrightarrow> memCache L2 = Some m2 \<Longrightarrow>
       m2 (?slot L2) = None \<Longrightarrow>
       createHeightField (- 1000) exOps L2 exKey progress2 =
         fromMainCache (- 1000) exOps (recordCall MemCacheRead L2) exKey progress2"
    by blast+
  have fl: "\<not> statusIsError ?L1" "getEnabled ?L1"
    using h(1,2,3,4) memory_miss[of exStaleBrokenLayer "\<lambda>k. None" exKey "- 1000" exOps None]
      fromMainCache_pins[OF h(7), of "recordCall MemCacheRead exStaleBrokenLayer" "- 1000" exOps exKey exOldGrid]
      first
    by (simp_all add: makeMemCacheKey_def key_str_def)
  have at: "((\<lambda>k. None)(?slot exStaleBrokenLayer \<mapsto> exOldGrid)) (?slot ?L1) = Some exOldGrid"
    using rev by simp
  from later [OF fl wr at, of None] have second:
    "snd (createHeightField (- 1000) exOps ?L1 exKey None) = recordCall MemCacheRead ?L1"
    "fst (createHeightField (- 1000) exOps ?L1 exKey None) = GeoHF (Some exOldGrid) exKey"
    by (simp_all add: isCanceled_def)
  have fl8: "\<not> statusIsError (?L1\<lparr>getRevision := 8\<rparr>)" "getEnabled (?L1\<lparr>getRevision := 8\<rparr>)"
    "memCache (?L1\<lparr>getRevision := 8\<rparr>) = Some ((\<lambda>k. None)(?slot exStaleBrokenLayer \<mapsto> exOldGrid))"
    using fl wr by simp_all
  have at8: "((\<lambda>k. None)(?slot exStaleBrokenLayer \<mapsto> exOldGrid)) (?slot (?L1\<lparr>getRevision := 8\<rparr>)) = None"
    by (simp add: sl)
  note third = other [OF fl8 at8, of None]
  have wr': "memCache ?L1 = Some ((\<lambda>k. None)((7, (3, 2, 5), 1) \<mapsto> exOldGrid))"
    using wr by (simp add: sl)
  show ?thesis
    using h(3,8,11) f first wr' second third by blast
qed

subsection \<open>Grids as arrays\<close>



lemma setHeight_dims [simp]:
  "getNumColumns (setHeight c r v hf) = getNumColumns hf"
  "getNumRows (setHeight c r v hf) = getNumRows hf"
  "length (getHeightList (setHeight c r v hf)) = length (getHeightList hf)"
  by (simp_all add: setHeight_def)

lemma wellSized_setHeight [simp]: "wellSized (setHeight c r v hf) = wellSized hf"
  by (simp add: wellSized_def)



lemma nmSet_at [simp]:
  "nmAt (nmSet c r n nm) p = (if p = (c, r) then Some n else nmAt nm p)"
  by (simp add: nmSet_def)

lemma nmSet_dims [simp]: "nmWidth (nmSet c r n nm) = nmWidth nm" "nmHeight (nmSet c r n nm) = nmHeight nm"
  by (simp_all add: nmSet_def)



subsection \<open>The loops of the assembler\<close>





lemma allocate_wellSized [simp]:
  "wellSized (allocate w h z)" "getNumColumns (allocate w h z) = w" "getNumRows (allocate w h z) = h"
  by (simp_all add: allocate_def wellSized_def)




lemma Max_insert_0:
  fixes A :: "nat set"
  assumes "finite A" "A \<noteq> {}"
  shows "Max (insert 0 A) = Max A"
  using assms by simp













subsection \<open>The early return of the compositor\<close>

lemma considerLayer_counts:
  assumes "considerLayer ops key keyToUse numColumns (i, layer) (cs, os, n) = (cs', os', n')"
  shows "length cs' + length os' =
           length cs + length os + (if qualifies ops key keyToUse numColumns layer then 1 else 0)"
    and "n' = n + (if qualifies ops key keyToUse numColumns layer \<and>
                      suppliesFallback ops keyToUse numColumns layer then 1 else 0)"
  using assms
  by (auto simp: considerLayer_def qualifies_def suppliesFallback_def Let_def
      split: if_splits option.splits)

lemma collect_counts:
  assumes "fold (considerLayer ops key keyToUse numColumns) xs (cs, os, n) = (cs', os', n')"
  shows "length cs' + length os' =
           length cs + length os +
           length (filter (\<lambda>il. qualifies ops key keyToUse numColumns (snd il)) xs) \<and>
         n' = n + length (filter (\<lambda>il. qualifies ops key keyToUse numColumns (snd il) \<and>
                                     suppliesFallback ops keyToUse numColumns (snd il)) xs)"
  using assms
proof (induction xs arbitrary: cs os n)
  case Nil
  then show ?case by simp
next
  case (Cons x xs)
  obtain i layer where x: "x = (i, layer)" by (cases x)
  obtain cs1 os1 n1 where s: "considerLayer ops key keyToUse numColumns (i, layer) (cs, os, n) = (cs1, os1, n1)"
    by (metis prod_cases3)
  from Cons.prems have "fold (considerLayer ops key keyToUse numColumns) xs (cs1, os1, n1) = (cs', os', n')"
    by (simp add: x s)
  from Cons.IH[OF this] considerLayer_counts[OF s] show ?case
    by (simp add: x)
qed

text \<open>
  C4. When every layer that qualifies for the tile key (contenders and offsets alike)
  would supply fallback data only, its best available key differing from its
  resolution-mapped key, and so in particular when no layer qualifies, the compositor
  returns false, leaves the grid and the normal map as they were, and has called
  \<^verbatim>\<open>createHeightField\<close> on no layer.
\<close>

theorem all_fallback_short_circuit:
  assumes "keyToUse = (case haeProfile of None \<Rightarrow> key | Some p \<Rightarrow> key\<lparr>getProfile := p\<rparr>)"
    and "\<forall>layer\<in>set layers. qualifies ops key keyToUse (getNumColumns h) layer \<longrightarrow>
           suppliesFallback ops keyToUse (getNumColumns h) layer"
  shows "populateHeightFieldAndNormalMap ops nops nd layers (Some h) normalMap key haeProfile
           interpolation progress =
         Some \<lparr>realDataOut = False, hfOut = Some h, normalMapOut = normalMap, fetches = []\<rparr>"
proof -
  obtain cs os n where c: "collectLayers ops layers key keyToUse (getNumColumns h) = (cs, os, n)"
    by (metis prod_cases3)
  let ?xs = "rev (enumerate 0 layers)"
  have sub: "snd ` set ?xs \<subseteq> set layers"
    by (auto simp: enumerate_eq_zip dest: set_zip_rightD)
  have same: "filter (\<lambda>il. qualifies ops key keyToUse (getNumColumns h) (snd il)) ?xs =
        filter (\<lambda>il. qualifies ops key keyToUse (getNumColumns h) (snd il) \<and>
                     suppliesFallback ops keyToUse (getNumColumns h) (snd il)) ?xs"
    using assms(2) sub by (intro filter_cong) auto
  have "length cs + length os = n"
    using collect_counts[of ops key keyToUse "getNumColumns h" ?xs "[]" "[]" 0 cs os n] c same
    by (simp add: collectLayers_def)
  then show ?thesis
    using c assms(1)
    by (simp add: populateHeightFieldAndNormalMap_def Let_def)
qed


lemmas ex4_defs = exGetElevation_def exCOps_def exNOps_def exAncestorLayer_def

theorem all_fallback_short_circuit_witness:
  "qualifies exCOps exKey exKey (getNumColumns exGrid) exAncestorLayer \<and>
   suppliesFallback exCOps exKey (getNumColumns exGrid) exAncestorLayer \<and>
   populateHeightFieldAndNormalMap exCOps exNOps (- 1000)
     [exAncestorLayer, exAncestorLayer\<lparr>isOffset := True\<rparr>] (Some exGrid) None exKey None () None =
   Some \<lparr>realDataOut = False, hfOut = Some exGrid, normalMapOut = None, fetches = []\<rparr>"
proof -
  have q: "qualifies exCOps exKey exKey (getNumColumns exGrid) exAncestorLayer"
    "qualifies exCOps exKey exKey (getNumColumns exGrid) (exAncestorLayer\<lparr>isOffset := True\<rparr>)"
    by (simp_all add: qualifies_def ex_defs ex4_defs createParentKey_def)
  have f: "suppliesFallback exCOps exKey (getNumColumns exGrid) exAncestorLayer"
    "suppliesFallback exCOps exKey (getNumColumns exGrid) (exAncestorLayer\<lparr>isOffset := True\<rparr>)"
    by (simp_all add: suppliesFallback_def ex_defs ex4_defs createParentKey_def)
  have "\<forall>layer\<in>set [exAncestorLayer, exAncestorLayer\<lparr>isOffset := True\<rparr>].
          qualifies exCOps exKey exKey (getNumColumns exGrid) layer \<longrightarrow>
          suppliesFallback exCOps exKey (getNumColumns exGrid) layer"
    using f by simp
  from all_fallback_short_circuit [where haeProfile = None and key = exKey and nops = exNOps and nd = "- 1000"
        and normalMap = None and interpolation = "()" and progress = None, OF _ this] q(1) f(1)
  show ?thesis by simp
qed

subsection \<open>Normal synthesis\<close>











end
